theory Spec2Isabelle
  imports Main "HOL-Library.Word"
begin

text \<open>
  The node supervisor of \<open>dcrdtest\<close>: the configuration of a \<open>dcrd\<close> process and
  its argument list, the node with \<open>start\<close>, \<open>stop\<close> and \<open>shutdown\<close>, the task
  that reads the addresses the process has bound from the IPC pipe, and the generation
  of the certificate pair. Calls that leave the package (the operating system, the Go
  runtime, \<open>certgen\<close>) return what an environment says they return; what a call of the
  package does is the list of its events, in order.
\<close>

section \<open>Errors\<close>

text \<open>
  Go errors. \<open>errors.New s\<close> and a \<open>fmt.Errorf\<close> without a \<open>%w\<close> verb
  give an error that only carries its message; a \<open>fmt.Errorf\<close> with one \<open>%w\<close>
  verb gives an error that carries the formatted message and the wrapped error.
\<close>

datatype go_error = ErrorString string | WrapError string go_error

fun Error :: "go_error \<Rightarrow> string" where
  "Error (ErrorString s) = s"
| "Error (WrapError s e) = s"

fun Unwrap :: "go_error \<Rightarrow> go_error option" where
  "Unwrap (ErrorString s) = None"
| "Unwrap (WrapError s e) = Some e"

text \<open>\<open>errors.Is\<close>; the first argument may be \<open>nil\<close>.\<close>

fun errors_Is :: "go_error option \<Rightarrow> go_error \<Rightarrow> bool" where
  "errors_Is None target = False"
| "errors_Is (Some (ErrorString s)) target = (ErrorString s = target)"
| "errors_Is (Some (WrapError s e)) target =
     (WrapError s e = target \<or> errors_Is (Some e) target)"

text \<open>\<open>var errDcrdCmdExec = errors.New("unable to exec dcrd binary")\<close>\<close>

definition errDcrdCmdExec :: go_error where
  "errDcrdCmdExec = ErrorString ''unable to exec dcrd binary''"

section \<open>Node configuration\<close>

text \<open>
  Modelled from the spec: the type \<open>ipcPipePair\<close> is declared in a file that is not
  part of the sources. The spec gives a pair a readable end and a writable end; the
  source reads the field \<open>r\<close> and calls \<open>close\<close>. The ends are file handles,
  modelled as numbers.
\<close>

record ipcPipePair =
  r :: nat
  w :: nat

record nodeConfig =
  rpcUser :: string
  rpcPass :: string
  listen :: string
  rpcListen :: string
  rpcConnect :: string
  dataDir :: string
  logDir :: string
  profile :: string
  debugLevel :: string
  extra :: "string list"
  prefix :: string
  pathToDCRD :: string
  endpoint :: string
  certFile :: string
  keyFile :: string
  certificates :: "nat list"
  pipeTX :: ipcPipePair
  pipeRX :: ipcPipePair

text \<open>
  Modelled from the spec: \<open>appendOSNodeArgs\<close> lives in an OS-specific file that is
  not part of the sources. The spec describes it as the capability "append OS-specific
  IPC args", which adds "the platform-specific encoding of the two IPC pipe file
  descriptors as child-visible arguments". The arguments it appends are the parameter
  \<open>osArgs\<close>.
\<close>

definition appendOSNodeArgs ::
  "(nodeConfig \<Rightarrow> string list) \<Rightarrow> nodeConfig \<Rightarrow> string list \<Rightarrow> string list" where
  "appendOSNodeArgs osArgs n args = args @ osArgs n"

text \<open>
  \<open>nodeConfig.arguments\<close>: \<open>append(args, x)\<close> is \<open>args @ [x]\<close> and
  \<open>fmt.Sprintf("--flag=%s", v)\<close> is \<open>''--flag='' @ v\<close>.
\<close>

definition arguments :: "(nodeConfig \<Rightarrow> string list) \<Rightarrow> nodeConfig \<Rightarrow> string list" where
  "arguments osArgs n =
    (let args = [];
         args = (if rpcUser n \<noteq> [] then args @ [''--rpcuser='' @ rpcUser n] else args);
         args = (if rpcPass n \<noteq> [] then args @ [''--rpcpass='' @ rpcPass n] else args);
         args = (if listen n \<noteq> [] then args @ [''--listen='' @ listen n] else args);
         args = (if rpcListen n \<noteq> [] then args @ [''--rpclisten='' @ rpcListen n] else args);
         args = (if rpcConnect n \<noteq> [] then args @ [''--rpcconnect='' @ rpcConnect n] else args);
         args = args @ [''--rpccert='' @ certFile n];
         args = args @ [''--rpckey='' @ keyFile n];
         args = args @ [''--txindex''];
         args = (if nodeConfig.dataDir n \<noteq> [] then args @ [''--datadir='' @ nodeConfig.dataDir n] else args);
         args = (if logDir n \<noteq> [] then args @ [''--logdir='' @ logDir n] else args);
         args = (if profile n \<noteq> [] then args @ [''--profile='' @ profile n] else args);
         args = (if debugLevel n \<noteq> [] then args @ [''--debuglevel='' @ debugLevel n] else args);
         args = args @ [''--allowunsyncedmining''];
         args = appendOSNodeArgs osArgs n args;
         args = args @ [''--boundaddrevents''];
         args = args @ extra n
     in args)"


text \<open>
  \<open>exec.Cmd\<close>, as far as the node uses it: the path, the argument vector and the
  process, which is \<open>nil\<close> until \<open>Start\<close> has succeeded.
\<close>

record exec_Cmd =
  Path :: string
  Args :: "string list"
  Process :: "nat option"

text \<open>\<open>exec.Command(name, arg...)\<close>: the argument vector starts with the name.\<close>

definition exec_Command :: "string \<Rightarrow> string list \<Rightarrow> exec_Cmd" where
  "exec_Command name arg = \<lparr>Path = name, Args = name # arg, Process = None\<rparr>"

section \<open>Events and the environment\<close>

datatype signal = os_Kill | os_Interrupt

datatype task = stderrReader | stdoutReader | ipcReader

text \<open>
  What a run does, in order: the log lines (\<open>Logf\<close> is \<open>n.logf\<close>, which carries
  the node number; a \<open>%v\<close> of an error is replaced by its message) and the calls into
  the operating system and the Go runtime.
\<close>

datatype event =
    Tracef string
  | Debugf string
  | Logf "32 word" string
  | StderrPipe
  | StdoutPipe
  | WgAdd nat
  | Go task
  | CmdStart exec_Cmd
  | CloseRunning
  | WgWait
  | PipeClose ipcPipePair
  | ProcessSignal signal
  | CmdWait
  | NextIPCMessage nat
  | CloseGotSubsysAddrs
  | NewTLSCertPair string
  | WriteFile string "nat list" nat
  | Remove string

fun isLog :: "event \<Rightarrow> bool" where
  "isLog (Tracef s) = True"
| "isLog (Debugf s) = True"
| "isLog (Logf i s) = True"
| "isLog e = False"

definition actions :: "event list \<Rightarrow> event list" where
  "actions tr = filter (\<lambda>e. \<not> isLog e) tr"

text \<open>
  Messages of the IPC protocol. The type switch of \<open>start\<close> names two of them; every
  other message type takes no branch.
\<close>

datatype ipcMessage =
    boundP2PListenAddrEvent string
  | boundRPCListenAddrEvent string
  | otherIPCMessage string

text \<open>
  What is readable on each file handle: the results the successive reads of one framed
  message will give. Once the list is used up the handle is at its end.
\<close>

type_synonym ipcStore = "nat \<Rightarrow> (go_error + ipcMessage) list"

definition io_EOF :: go_error where
  "io_EOF = ErrorString ''EOF''"

definition context_Canceled :: go_error where
  "context_Canceled = ErrorString ''context canceled''"

text \<open>
  Modelled from the spec: \<open>nextIPCMessage\<close> is in a file that is not part of the
  sources. The spec: it "reads one framed message and decodes it" and gives an event or
  an error, and "returns an end-of-stream error when the underlying pipe is closed with
  no more data".
\<close>

definition nextIPCMessage :: "ipcStore \<Rightarrow> nat \<Rightarrow> (go_error + ipcMessage) \<times> ipcStore" where
  "nextIPCMessage st fd =
     (case st fd of
        [] \<Rightarrow> (Inl io_EOF, st)
      | x # xs \<Rightarrow> (x, st(fd := xs)))"

text \<open>
  The results of the calls that leave the repository, and the timing of the context:
  \<open>ctxDone\<close> is the context's error if the context is done at some moment of the
  call (\<open>None\<close>: never), and \<open>selectCtxFirst\<close> says which case the \<open>select\<close>
  takes when both are ready. \<open>osNodeArgs\<close> and \<open>setOSNodeCmdOptions\<close> are the two
  OS-specific functions, which are not part of the sources.
\<close>

record env =
  GOOS :: string
  osNodeArgs :: "nodeConfig \<Rightarrow> string list"
  setOSNodeCmdOptions :: "nodeConfig \<Rightarrow> exec_Cmd \<Rightarrow> exec_Cmd"
  stderrPipeResult :: "go_error + nat"
  stdoutPipeResult :: "go_error + nat"
  cmdStartResult :: "go_error + nat"
  ctxDone :: "go_error option"
  selectCtxFirst :: bool
  ipcInput :: ipcStore
  pipeCloseResult :: "ipcPipePair \<Rightarrow> go_error option"
  signalResult :: "go_error option"
  cmdWaitResult :: "go_error option"

section \<open>The node\<close>

record node =
  config :: nodeConfig
  nodeNum :: "32 word"
  cmd :: "exec_Cmd option"
  stderr :: "nat option"
  stdout :: "nat option"
  p2pAddr :: string
  rpcAddr :: string
  dataDir :: string

text \<open>\<open>nodeConfig.command\<close>\<close>

definition command :: "env \<Rightarrow> nodeConfig \<Rightarrow> exec_Cmd" where
  "command env n =
     (let cmd = exec_Command (pathToDCRD n) (arguments (osNodeArgs env) n)
      in setOSNodeCmdOptions env n cmd)"

text \<open>\<open>newNode\<close>: the node and a \<open>nil\<close> error.\<close>

definition newNode :: "nodeConfig \<Rightarrow> string \<Rightarrow> 32 word \<Rightarrow> node \<times> go_error option" where
  "newNode cfg dir num =
     (\<lparr>config = cfg, nodeNum = num, cmd = None, stderr = None, stdout = None,
       p2pAddr = [], rpcAddr = [], dataDir = dir\<rparr>, None)"

subsection \<open>stop\<close>

text \<open>
  \<open>node.stop\<close>: the returned error, the node afterwards and the events of the call.
  The deferred \<open>Tracef\<close> is the last event of both paths.
\<close>

definition stop :: "env \<Rightarrow> node \<Rightarrow> go_error option \<times> node \<times> event list" where
  "stop env n =
    (let tr = [Tracef ''stop %p''] in
     if cmd n = None \<or> (case cmd n of None \<Rightarrow> True | Some c \<Rightarrow> Process c = None) then
       (None, n, tr @ [Tracef ''stop done''])
     else
       let err = pipeCloseResult env (pipeRX (config n));
           tr = tr @ [PipeClose (pipeRX (config n))];
           tr = (case err of
                   None \<Rightarrow> tr
                 | Some e \<Rightarrow>
                     let tr = tr @ [Logf (nodeNum n) (''Unable to close piperx ends: '' @ Error e)];
                         tr = tr @ [Tracef ''stop send kill''];
                         sig = (if GOOS env = ''windows'' then os_Kill else os_Interrupt);
                         tr = tr @ [ProcessSignal sig]
                     in (case signalResult env of
                           None \<Rightarrow> tr
                         | Some e' \<Rightarrow> tr @ [Debugf (''stop Signal error: '' @ Error e')]));
           tr = tr @ [Tracef ''stop wg'', WgWait];
           tr = tr @ [Tracef ''stop cmd.Wait'', CmdWait];
           tr = (case cmdWaitResult env of
                   None \<Rightarrow> tr
                 | Some e \<Rightarrow> tr @ [Debugf (''stop cmd.Wait error: '' @ Error e)]);
           tr = tr @ [PipeClose (pipeTX (config n))];
           tr = (case pipeCloseResult env (pipeTX (config n)) of
                   None \<Rightarrow> tr
                 | Some e \<Rightarrow> tr @ [Logf (nodeNum n) (''Unable to close pipe TX: '' @ Error e)]);
           n = n\<lparr>cmd := None\<rparr>
       in (None, n, tr @ [Tracef ''stop done'']))"

text \<open>
  The condition under which \<open>stop\<close> goes on after its first check: the node has a
  command and the command has a process.
\<close>

definition processStarted :: "node \<Rightarrow> bool" where
  "processStarted n =
     (\<not> (cmd n = None \<or> (case cmd n of None \<Rightarrow> True | Some c \<Rightarrow> Process c = None)))"

text \<open>\<open>node.shutdown\<close>\<close>

definition shutdown :: "env \<Rightarrow> node \<Rightarrow> go_error option \<times> node \<times> event list" where
  "shutdown env n =
    (let tr = [Tracef ''shutdown''] in
     case stop env n of
       (Some err, n, tr') \<Rightarrow>
         (Some err, n, tr @ tr' @ [Debugf (''shutdown stop error: '' @ Error err), Tracef ''shutdown done''])
     | (None, n, tr') \<Rightarrow> (None, n, tr @ tr' @ [Tracef ''shutdown done'']))"

subsection \<open>The task that reads the IPC messages\<close>

text \<open>
  The state of the third goroutine of \<open>start\<close>: the file handles it reads, the two
  variables \<open>p2pAddr\<close> and \<open>rpcAddr\<close> it shares with \<open>start\<close>, whether it has
  closed the channel \<open>gotSubsysAddrs\<close>, and its events.
\<close>

record ipcState =
  ipcPipes :: ipcStore
  p2pAddrVar :: string
  rpcAddrVar :: string
  gotSubsysAddrs :: bool
  ipcTrace :: "event list"

text \<open>
  The first loop. The result says how the loop ended: \<open>True\<close> for the \<open>break\<close>,
  \<open>False\<close> for the \<open>return\<close> after a read error.
\<close>

function readSubsysAddrs :: "nodeConfig \<Rightarrow> 32 word \<Rightarrow> ipcState \<Rightarrow> ipcState \<times> bool" where
  "readSubsysAddrs cfg num s =
     (case nextIPCMessage (ipcPipes s) (r (pipeTX cfg)) of
        (Inl err, st) \<Rightarrow>
          (s\<lparr>ipcPipes := st,
             ipcTrace := ipcTrace s @ [NextIPCMessage (r (pipeTX cfg)),
               Logf num (''Unable to read next IPC message: '' @ Error err)]\<rparr>, False)
      | (Inr msg, st) \<Rightarrow>
          (let s = s\<lparr>ipcPipes := st, ipcTrace := ipcTrace s @ [NextIPCMessage (r (pipeTX cfg))]\<rparr>;
               s = (case msg of
                      boundP2PListenAddrEvent a \<Rightarrow>
                        s\<lparr>p2pAddrVar := a,
                          ipcTrace := ipcTrace s @ [Logf num (''P2P listen addr: '' @ a)]\<rparr>
                    | boundRPCListenAddrEvent a \<Rightarrow>
                        s\<lparr>rpcAddrVar := a,
                          ipcTrace := ipcTrace s @ [Logf num (''RPC listen addr: '' @ a)]\<rparr>
                    | otherIPCMessage a \<Rightarrow> s)
           in if p2pAddrVar s \<noteq> [] \<and> rpcAddrVar s \<noteq> [] then
                (s\<lparr>gotSubsysAddrs := True, ipcTrace := ipcTrace s @ [CloseGotSubsysAddrs]\<rparr>, True)
              else readSubsysAddrs cfg num s))"
  by pat_completeness auto
termination
  by (relation "measure (\<lambda>(cfg, num, s). length (ipcPipes s (r (pipeTX cfg))))")
     (auto simp: nextIPCMessage_def split: list.splits ipcMessage.splits)

text \<open>The second loop: \<open>for err == nil { _, err = nextIPCMessage(n.config.pipeRX.r) }\<close>\<close>

function drainIPCMessages :: "nodeConfig \<Rightarrow> ipcState \<Rightarrow> ipcState" where
  "drainIPCMessages cfg s =
     (case nextIPCMessage (ipcPipes s) (r (pipeRX cfg)) of
        (Inl err, st) \<Rightarrow>
          s\<lparr>ipcPipes := st, ipcTrace := ipcTrace s @ [NextIPCMessage (r (pipeRX cfg))]\<rparr>
      | (Inr msg, st) \<Rightarrow>
          drainIPCMessages cfg
            (s\<lparr>ipcPipes := st, ipcTrace := ipcTrace s @ [NextIPCMessage (r (pipeRX cfg))]\<rparr>))"
  by pat_completeness auto
termination
  by (relation "measure (\<lambda>(cfg, s). length (ipcPipes s (r (pipeRX cfg))))")
     (auto simp: nextIPCMessage_def split: list.splits)

declare readSubsysAddrs.simps [simp del]

declare drainIPCMessages.simps [simp del]

definition readIPCMessages :: "nodeConfig \<Rightarrow> 32 word \<Rightarrow> ipcStore \<Rightarrow> ipcState" where
  "readIPCMessages cfg num st =
     (let s = \<lparr>ipcPipes = st, p2pAddrVar = [], rpcAddrVar = [], gotSubsysAddrs = False,
                ipcTrace = [Logf num ''Reading IPC messages.'']\<rparr>
      in case readSubsysAddrs cfg num s of
           (s, False) \<Rightarrow> s
         | (s, True) \<Rightarrow>
             (let s = drainIPCMessages cfg s
              in s\<lparr>ipcTrace := ipcTrace s @ [Logf num ''IPC messages drained'']\<rparr>))"

subsection \<open>start\<close>

text \<open>
  \<open>node.start\<close>: the returned error, the node afterwards and the events of the calling
  goroutine, or \<open>None\<close> when the call never returns (the \<open>select\<close> blocks for ever:
  the context is never done and the channel \<open>gotSubsysAddrs\<close> is never closed). The
  three goroutines appear as \<open>Go\<close> events; the channel \<open>gotSubsysAddrs\<close> is closed
  when the goroutine that reads the IPC messages closes it.
\<close>

definition start :: "env \<Rightarrow> node \<Rightarrow> (go_error option \<times> node \<times> event list) option" where
  "start env n =
    (let c = command env (config n);
         tr = [StderrPipe]
     in case stderrPipeResult env of
          Inl err \<Rightarrow> Some (Some err, n\<lparr>stderr := None\<rparr>, tr)
        | Inr h \<Rightarrow>
           (let n = n\<lparr>stderr := Some h\<rparr>;
                tr = tr @ [WgAdd 1, Go stderrReader];
                tr = tr @ [StdoutPipe]
            in case stdoutPipeResult env of
                 Inl err \<Rightarrow> Some (Some err, n\<lparr>stdout := None\<rparr>, tr)
               | Inr h' \<Rightarrow>
                  (let n = n\<lparr>stdout := Some h'\<rparr>;
                       tr = tr @ [WgAdd 1, Go stdoutReader];
                       tr = tr @ [Go ipcReader];
                       ipc = readIPCMessages (config n) (nodeNum n) (ipcInput env);
                       tr = tr @ [CmdStart c, CloseRunning]
                   in case cmdStartResult env of
                        Inl err \<Rightarrow>
                          (let tr = tr @ [WgWait];
                               tr = tr @ [PipeClose (pipeTX (config n))];
                               tr = tr @ [PipeClose (pipeRX (config n))]
                           in Some (Some (WrapError (Error errDcrdCmdExec @ '': '' @ Error err)
                                            errDcrdCmdExec), n, tr))
                      | Inr pid \<Rightarrow>
                          (let err = None;
                               n = n\<lparr>cmd := Some (c\<lparr>Process := Some pid\<rparr>)\<rparr>;
                               ctxCase = (\<lambda>ctxErr.
                                 (case stop env n of
                                    (closeErr, n, tr') \<Rightarrow>
                                      (let tr = tr @ tr';
                                           tr = (if closeErr \<noteq> None
                                                    \<and> \<not> errors_Is err context_Canceled
                                                 then tr @ [Logf (nodeNum n)
                                                   ''Error sttoping after context was canceled: <nil>'']
                                                 else tr)
                                       in Some (Some (ErrorString
                                            (''context done while waiting for addrs: '' @ Error ctxErr)),
                                            n, tr))));
                               addrsCase =
                                 Some (None, n\<lparr>p2pAddr := p2pAddrVar ipc\<rparr>\<lparr>rpcAddr := rpcAddrVar ipc\<rparr>, tr)
                           in case (ctxDone env, gotSubsysAddrs ipc) of
                                (None, False) \<Rightarrow> None
                              | (Some ctxErr, False) \<Rightarrow> ctxCase ctxErr
                              | (None, True) \<Rightarrow> addrsCase
                              | (Some ctxErr, True) \<Rightarrow>
                                  (if selectCtxFirst env then ctxCase ctxErr else addrsCase)))))"

text \<open>The node at the moment of the \<open>select\<close>, and the events up to it.\<close>

definition launched :: "env \<Rightarrow> node \<Rightarrow> nat \<Rightarrow> nat \<Rightarrow> nat \<Rightarrow> node" where
  "launched env n h h' pid =
     n\<lparr>stderr := Some h, stdout := Some h',
       cmd := Some ((command env (config n))\<lparr>Process := Some pid\<rparr>)\<rparr>"

definition launchEvents :: "env \<Rightarrow> node \<Rightarrow> event list" where
  "launchEvents env n =
     [StderrPipe, WgAdd 1, Go stderrReader, StdoutPipe, WgAdd 1, Go stdoutReader, Go ipcReader,
      CmdStart (command env (config n)), CloseRunning]"

subsection \<open>The lifetime of a node\<close>

text \<open>
  Modelled from the spec: \<open>ipcPipePair.close\<close> is not part of the sources. The spec
  gives a pair an "open/closed status", says that the pairs of a configuration "are
  consumed (closed) during the node's stop sequence and must not be reused", and that a
  reader "must observe end-of-stream once the write end closes". \<open>pipeCloses\<close> are
  the pairs on which a call has called \<open>close\<close>, in order; on the read end of such a
  pair no message can be read any more, and a read is at the end of the stream.
\<close>

fun pipeCloses :: "event list \<Rightarrow> ipcPipePair list" where
  "pipeCloses [] = []"
| "pipeCloses (PipeClose p # tr) = p # pipeCloses tr"
| "pipeCloses (e # tr) = pipeCloses tr"

definition readableInput :: "ipcPipePair list \<Rightarrow> ipcStore \<Rightarrow> ipcStore" where
  "readableInput closed st = (\<lambda>fd. if fd \<in> set (map r closed) then [] else st fd)"

text \<open>
  A node is created by \<open>newNode\<close> and then driven by calls of \<open>start\<close>, \<open>stop\<close>
  and \<open>shutdown\<close>, each in its own environment. \<open>lifetime\<close> runs a sequence of
  calls. Its state is the node, whether one of the calls of \<open>start\<close> has returned
  \<open>nil\<close>, and the pipe pairs that the calls so far have closed: a later \<open>start\<close>
  reads the pipes of the same configuration, so it can read only what is readable on
  pairs that are still open. The result is \<open>None\<close> when a call never returns.
\<close>

datatype call = CallStart env | CallStop env | CallShutdown env

fun lifetime ::
  "node \<times> bool \<times> ipcPipePair list \<Rightarrow> call list \<Rightarrow> (node \<times> bool \<times> ipcPipePair list) option" where
  "lifetime (n, started, closed) [] = Some (n, started, closed)"
| "lifetime (n, started, closed) (CallStart env # cs) =
     (case start (env\<lparr>ipcInput := readableInput closed (ipcInput env)\<rparr>) n of
        None \<Rightarrow> None
      | Some (None, n', tr) \<Rightarrow> lifetime (n', True, closed @ pipeCloses tr) cs
      | Some (Some err, n', tr) \<Rightarrow> lifetime (n', started, closed @ pipeCloses tr) cs)"
| "lifetime (n, started, closed) (CallStop env # cs) =
     (case stop env n of (err, n', tr) \<Rightarrow> lifetime (n', started, closed @ pipeCloses tr) cs)"
| "lifetime (n, started, closed) (CallShutdown env # cs) =
     (case shutdown env n of
        (err, n', tr) \<Rightarrow> lifetime (n', started, closed @ pipeCloses tr) cs)"




section \<open>The certificate pair\<close>

text \<open>
  The files: a name is bound to the bytes and the permission bits of the file.
  \<open>os.WriteFile\<close> and \<open>os.Remove\<close> get their outcome from the environment. A write
  that succeeds creates the file with the permissions asked for, or replaces the bytes
  of a file that exists and keeps its permissions (the umask is left out); a write that
  fails leaves the files as they were.
\<close>

type_synonym files = "string \<rightharpoonup> nat list \<times> nat"

definition os_WriteFile ::
  "go_error option \<Rightarrow> files \<Rightarrow> string \<Rightarrow> nat list \<Rightarrow> nat \<Rightarrow> go_error option \<times> files" where
  "os_WriteFile res fs name data perm =
     (case res of
        Some e \<Rightarrow> (Some e, fs)
      | None \<Rightarrow>
          (None, fs(name \<mapsto> (data, case fs name of None \<Rightarrow> perm | Some (old, m) \<Rightarrow> m))))"

definition os_Remove :: "go_error option \<Rightarrow> files \<Rightarrow> string \<Rightarrow> go_error option \<times> files" where
  "os_Remove res fs name =
     (case res of
        Some e \<Rightarrow> (Some e, fs)
      | None \<Rightarrow> (None, fs(name := None)))"

text \<open>The permissions \<open>0644\<close> and \<open>0600\<close>, which the source writes in octal.\<close>

definition perm0644 :: nat where
  "perm0644 = 6 * 8 ^ 2 + 4 * 8 + 4"

definition perm0600 :: nat where
  "perm0600 = 6 * 8 ^ 2 + 0 * 8 + 0"

text \<open>
  The outcomes of the calls \<open>genCertPair\<close> makes: \<open>certgen.NewTLSCertPair\<close>, the
  write of the certificate, the write of the key and the removal of the certificate.
\<close>

record certEnv =
  newTLSCertPairResult :: "go_error + nat list \<times> nat list"
  writeCertResult :: "go_error option"
  writeKeyResult :: "go_error option"
  removeCertResult :: "go_error option"

text \<open>\<open>genCertPair\<close>: the returned error, the files afterwards and the events.\<close>

definition genCertPair ::
  "certEnv \<Rightarrow> files \<Rightarrow> string \<Rightarrow> string \<Rightarrow> go_error option \<times> files \<times> event list" where
  "genCertPair ce fs certFile' keyFile' =
    (let org = ''dcrdtest autogenerated cert'';
         tr = [NewTLSCertPair org]
     in case newTLSCertPairResult ce of
          Inl err \<Rightarrow> (Some err, fs, tr)
        | Inr (cert, key) \<Rightarrow>
           (let tr = tr @ [WriteFile certFile' cert perm0644] in
            case os_WriteFile (writeCertResult ce) fs certFile' cert perm0644 of
              (Some err, fs) \<Rightarrow> (Some err, fs, tr)
            | (None, fs) \<Rightarrow>
               (let tr = tr @ [WriteFile keyFile' key perm0600] in
                case os_WriteFile (writeKeyResult ce) fs keyFile' key perm0600 of
                  (Some err, fs) \<Rightarrow>
                    (case os_Remove (removeCertResult ce) fs certFile' of
                       (ignored, fs) \<Rightarrow> (Some err, fs, tr @ [Remove certFile']))
                | (None, fs) \<Rightarrow> (None, fs, tr))))"

section \<open>The goroutines of start\<close>

text \<open>
  \<open>start\<close> and the three goroutines it starts, one step at a time. The model keeps
  what the goroutines synchronise on: the wait group, the channels \<open>running\<close> and
  \<open>gotSubsysAddrs\<close>, the context and the two pipe pairs. A step is taken by the calling
  goroutine (the statements of \<open>start\<close>, and of \<open>stop\<close> when \<open>start\<close> calls it) or
  by one of the three goroutines; the scheduler chooses which, and the environment
  chooses what a call returns.
\<close>

text \<open>How \<open>start\<close> has returned.\<close>

datatype returned = PipeError | ExecError | ContextError | AddrsKnown

text \<open>
  Where the calling goroutine is: the statement it executes next. The lines are those of
  the source.
\<close>

datatype mainPc =
    AtStderrPipe    \<comment> \<open>220: \<open>n.stderr, err = cmd.StderrPipe()\<close>\<close>
  | AtStderrAdd     \<comment> \<open>224: \<open>n.wg.Add(1)\<close>\<close>
  | AtStderrGo      \<comment> \<open>225: \<open>go func()\<close>, the reader of stderr\<close>
  | AtStdoutPipe    \<comment> \<open>248: \<open>n.stdout, err = cmd.StdoutPipe()\<close>\<close>
  | AtStdoutAdd     \<comment> \<open>252: \<open>n.wg.Add(1)\<close>\<close>
  | AtStdoutGo      \<comment> \<open>253: \<open>go func()\<close>, the reader of stdout\<close>
  | AtIPCGo         \<comment> \<open>278: \<open>go func()\<close>, the reader of the IPC messages\<close>
  | AtCmdStart      \<comment> \<open>309: \<open>err = cmd.Start()\<close>\<close>
  | AtCloseRunning  \<comment> \<open>310: \<open>close(running)\<close>\<close>
  | AtExecWait      \<comment> \<open>314: \<open>n.wg.Wait()\<close>\<close>
  | AtExecCloseTX   \<comment> \<open>315: \<open>n.config.pipeTX.close()\<close>\<close>
  | AtExecCloseRX   \<comment> \<open>316: \<open>n.config.pipeRX.close()\<close>\<close>
  | AtSelect        \<comment> \<open>322: \<open>select\<close>\<close>
  | AtStopCloseRX   \<comment> \<open>351: \<open>err := n.config.pipeRX.close()\<close>\<close>
  | AtStopSignal    \<comment> \<open>360, 362: \<open>n.cmd.Process.Signal\<close>\<close>
  | AtStopWait      \<comment> \<open>371: \<open>n.wg.Wait()\<close>\<close>
  | AtStopCmdWait   \<comment> \<open>375: \<open>err = n.cmd.Wait()\<close>\<close>
  | AtStopCloseTX   \<comment> \<open>381: \<open>n.config.pipeTX.close()\<close>\<close>
  | Returned returned

text \<open>
  Where a goroutine is. A reader of stderr or stdout waits in its \<open>select\<close> and then
  reads lines; the reader of the IPC messages is in its first or in its second loop.
\<close>

datatype taskPc =
    NotStarted
  | AwaitRunning
  | ReadingStream
  | ReadingAddrs
  | Draining
  | Finished

record goroutines =
  mainPc :: mainPc
  stderrTask :: taskPc
  stdoutTask :: taskPc
  ipcTask :: taskPc
  wgCount :: nat
  runningClosed :: bool
  ctxIsDone :: bool
  gotSubsysAddrsClosed :: bool
  startFailed :: bool
  pipeTXClosed :: bool
  pipeRXClosed :: bool
  p2pAddrSeen :: string
  rpcAddrSeen :: string

definition beforeStart :: goroutines where
  "beforeStart = \<lparr>mainPc = AtStderrPipe, stderrTask = NotStarted, stdoutTask = NotStarted,
     ipcTask = NotStarted, wgCount = 0, runningClosed = False, ctxIsDone = False,
     gotSubsysAddrsClosed = False, startFailed = False, pipeTXClosed = False,
     pipeRXClosed = False, p2pAddrSeen = [], rpcAddrSeen = []\<rparr>"

text \<open>
  A step of the calling goroutine. \<open>ok\<close> is the outcome of the call at hand (no error);
  at the \<open>select\<close> it says which case is taken, \<open>True\<close> for \<open>ctx.Done()\<close>. The
  result is \<open>None\<close> when the step cannot be taken: \<open>Wait\<close> blocks while the counter
  is not zero, the \<open>select\<close> blocks while neither channel is ready, and nothing
  follows the return. After \<open>cmd.Start\<close> has succeeded \<open>n.cmd\<close> and its process are
  set, so the \<open>stop\<close> that \<open>start\<close> calls goes past its first check.
\<close>

definition mainStep :: "bool \<Rightarrow> goroutines \<Rightarrow> goroutines option" where
  "mainStep ok s =
    (case mainPc s of
       AtStderrPipe \<Rightarrow> Some (s\<lparr>mainPc := (if ok then AtStderrAdd else Returned PipeError)\<rparr>)
     | AtStderrAdd \<Rightarrow> Some (s\<lparr>wgCount := wgCount s + 1, mainPc := AtStderrGo\<rparr>)
     | AtStderrGo \<Rightarrow> Some (s\<lparr>stderrTask := AwaitRunning, mainPc := AtStdoutPipe\<rparr>)
     | AtStdoutPipe \<Rightarrow> Some (s\<lparr>mainPc := (if ok then AtStdoutAdd else Returned PipeError)\<rparr>)
     | AtStdoutAdd \<Rightarrow> Some (s\<lparr>wgCount := wgCount s + 1, mainPc := AtStdoutGo\<rparr>)
     | AtStdoutGo \<Rightarrow> Some (s\<lparr>stdoutTask := AwaitRunning, mainPc := AtIPCGo\<rparr>)
     | AtIPCGo \<Rightarrow> Some (s\<lparr>ipcTask := ReadingAddrs, mainPc := AtCmdStart\<rparr>)
     | AtCmdStart \<Rightarrow> Some (s\<lparr>startFailed := \<not> ok, mainPc := AtCloseRunning\<rparr>)
     | AtCloseRunning \<Rightarrow>
         Some (s\<lparr>runningClosed := True,
                 mainPc := (if startFailed s then AtExecWait else AtSelect)\<rparr>)
     | AtExecWait \<Rightarrow> (if wgCount s = 0 then Some (s\<lparr>mainPc := AtExecCloseTX\<rparr>) else None)
     | AtExecCloseTX \<Rightarrow> Some (s\<lparr>pipeTXClosed := True, mainPc := AtExecCloseRX\<rparr>)
     | AtExecCloseRX \<Rightarrow> Some (s\<lparr>pipeRXClosed := True, mainPc := Returned ExecError\<rparr>)
     | AtSelect \<Rightarrow>
         (if ok then (if ctxIsDone s then Some (s\<lparr>mainPc := AtStopCloseRX\<rparr>) else None)
          else (if gotSubsysAddrsClosed s then Some (s\<lparr>mainPc := Returned AddrsKnown\<rparr>)
                else None))
     | AtStopCloseRX \<Rightarrow>
         Some (s\<lparr>pipeRXClosed := True, mainPc := (if ok then AtStopWait else AtStopSignal)\<rparr>)
     | AtStopSignal \<Rightarrow> Some (s\<lparr>mainPc := AtStopWait\<rparr>)
     | AtStopWait \<Rightarrow> (if wgCount s = 0 then Some (s\<lparr>mainPc := AtStopCmdWait\<rparr>) else None)
     | AtStopCmdWait \<Rightarrow> Some (s\<lparr>mainPc := AtStopCloseTX\<rparr>)
     | AtStopCloseTX \<Rightarrow> Some (s\<lparr>pipeTXClosed := True, mainPc := Returned ContextError\<rparr>)
     | Returned k \<Rightarrow> None)"

fun taskPcOf :: "task \<Rightarrow> goroutines \<Rightarrow> taskPc" where
  "taskPcOf stderrReader s = stderrTask s"
| "taskPcOf stdoutReader s = stdoutTask s"
| "taskPcOf ipcReader s = ipcTask s"

fun setTaskPc :: "task \<Rightarrow> taskPc \<Rightarrow> goroutines \<Rightarrow> goroutines" where
  "setTaskPc stderrReader pc s = s\<lparr>stderrTask := pc\<rparr>"
| "setTaskPc stdoutReader pc s = s\<lparr>stdoutTask := pc\<rparr>"
| "setTaskPc ipcReader pc s = s\<lparr>ipcTask := pc\<rparr>"

text \<open>
  The \<open>select\<close> of a reader of stderr or stdout: \<open>case <-running\<close> goes on to the
  loop, \<open>case <-ctx.Done()\<close> returns, and the deferred \<open>n.wg.Done()\<close> runs.
\<close>

definition selectStep :: "task \<Rightarrow> bool \<Rightarrow> goroutines \<Rightarrow> goroutines option" where
  "selectStep t viaRunning s =
    (if t = ipcReader \<or> taskPcOf t s \<noteq> AwaitRunning then None
     else if viaRunning then
       (if runningClosed s then Some (setTaskPc t ReadingStream s) else None)
     else
       (if ctxIsDone s then Some ((setTaskPc t Finished s)\<lparr>wgCount := wgCount s - 1\<rparr>)
        else None))"

text \<open>What a read gives: a line of output, an IPC message, or an error (the end of the
  stream is one).\<close>

datatype readResult = GotLine string | GotMessage ipcMessage | ReadFailed go_error

text \<open>
  Modelled from the spec: \<open>ipcPipePair.close\<close> and \<open>nextIPCMessage\<close> are not
  part of the sources. The spec: "a reader blocked on \<open>read\<close> must observe
  end-of-stream once the write end closes", and \<open>nextIPCMessage\<close> "returns an
  end-of-stream error when the underlying pipe is closed"; \<open>close\<close> is "safe to call
  even if already closed". A pair is closed once \<open>close\<close> has been called on it,
  whatever the call returns; a message can be read from a pair only while it has not been
  closed, and after that a read gives an error.
\<close>

definition readable :: "bool \<Rightarrow> bool" where
  "readable closed = (\<not> closed)"

text \<open>
  A read of a goroutine. A reader of stderr or stdout logs a line and goes on, or
  returns at the first error, and \<open>n.wg.Done()\<close> runs. The reader of the IPC messages
  handles a message in its first loop as the source does and leaves the loop when both
  addresses are known; in its second loop, which reads \<open>pipeRX\<close>, it drops the
  message; it returns at the first error, and it is not registered with the wait group.
\<close>

fun readAt :: "task \<Rightarrow> taskPc \<Rightarrow> readResult \<Rightarrow> goroutines \<Rightarrow> goroutines option" where
  "readAt stderrReader ReadingStream (GotLine l) s = Some s"
| "readAt stderrReader ReadingStream (ReadFailed e) s =
     Some (s\<lparr>stderrTask := Finished, wgCount := wgCount s - 1\<rparr>)"
| "readAt stdoutReader ReadingStream (GotLine l) s = Some s"
| "readAt stdoutReader ReadingStream (ReadFailed e) s =
     Some (s\<lparr>stdoutTask := Finished, wgCount := wgCount s - 1\<rparr>)"
| "readAt ipcReader ReadingAddrs (GotMessage msg) s =
     (if \<not> readable (pipeTXClosed s) then None
      else
        let s = (case msg of
                   boundP2PListenAddrEvent a \<Rightarrow> s\<lparr>p2pAddrSeen := a\<rparr>
                 | boundRPCListenAddrEvent a \<Rightarrow> s\<lparr>rpcAddrSeen := a\<rparr>
                 | otherIPCMessage a \<Rightarrow> s)
        in if p2pAddrSeen s \<noteq> [] \<and> rpcAddrSeen s \<noteq> [] then
             Some (s\<lparr>gotSubsysAddrsClosed := True, ipcTask := Draining\<rparr>)
           else Some s)"
| "readAt ipcReader ReadingAddrs (ReadFailed e) s = Some (s\<lparr>ipcTask := Finished\<rparr>)"
| "readAt ipcReader Draining (GotMessage msg) s =
     (if \<not> readable (pipeRXClosed s) then None else Some s)"
| "readAt ipcReader Draining (ReadFailed e) s = Some (s\<lparr>ipcTask := Finished\<rparr>)"
| "readAt t pc res s = None"

definition readStep :: "task \<Rightarrow> readResult \<Rightarrow> goroutines \<Rightarrow> goroutines option" where
  "readStep t res s = readAt t (taskPcOf t s) res s"

text \<open>
  One step of the whole: a step of the calling goroutine, a step of one of the others,
  or the context becoming done (cancelled or expired).
\<close>

datatype choice =
    MainStep bool
  | SelectStep task bool
  | ReadStep task readResult
  | ContextDone

fun step :: "choice \<Rightarrow> goroutines \<Rightarrow> goroutines option" where
  "step (MainStep ok) s = mainStep ok s"
| "step (SelectStep t viaRunning) s = selectStep t viaRunning s"
| "step (ReadStep t res) s = readStep t res s"
| "step ContextDone s = Some (s\<lparr>ctxIsDone := True\<rparr>)"

fun run :: "choice list \<Rightarrow> goroutines \<Rightarrow> goroutines option" where
  "run [] s = Some s"
| "run (c # cs) s = (case step c s of None \<Rightarrow> None | Some s' \<Rightarrow> run cs s')"

text \<open>
  Two schedules. In the first \<open>cmd.Start\<close> fails, the two readers of the output
  find their streams closed, and \<open>start\<close> returns; in the second the process
  starts, the context expires, and \<open>start\<close> stops the node and returns. In both the
  reader of the IPC messages takes no step.
\<close>

definition execFails :: "choice list" where
  "execFails =
     [MainStep True, MainStep True, MainStep True,
      MainStep True, MainStep True, MainStep True,
      MainStep True,
      MainStep False,
      MainStep True,
      SelectStep stderrReader True, ReadStep stderrReader (ReadFailed (ErrorString ''file already closed'')),
      SelectStep stdoutReader True, ReadStep stdoutReader (ReadFailed (ErrorString ''file already closed'')),
      MainStep True, MainStep True, MainStep True]"


text \<open>Where the calling goroutine has started all three goroutines.\<close>

fun allStarted :: "mainPc \<Rightarrow> bool" where
  "allStarted AtStderrPipe = False"
| "allStarted AtStderrAdd = False"
| "allStarted AtStderrGo = False"
| "allStarted AtStdoutPipe = False"
| "allStarted AtStdoutAdd = False"
| "allStarted AtStdoutGo = False"
| "allStarted AtIPCGo = False"
| "allStarted (Returned k) = (k \<noteq> PipeError)"
| "allStarted pc = True"

text \<open>Where it is past a \<open>Wait\<close>, and where it has closed a pipe pair.\<close>

fun pastWait :: "mainPc \<Rightarrow> bool" where
  "pastWait AtExecCloseTX = True"
| "pastWait AtExecCloseRX = True"
| "pastWait AtStopCmdWait = True"
| "pastWait AtStopCloseTX = True"
| "pastWait (Returned k) = (k = ExecError \<or> k = ContextError)"
| "pastWait pc = False"

fun pastCloseTX :: "mainPc \<Rightarrow> bool" where
  "pastCloseTX AtExecCloseRX = True"
| "pastCloseTX (Returned k) = (k = ExecError \<or> k = ContextError)"
| "pastCloseTX pc = False"

fun pastCloseRX :: "mainPc \<Rightarrow> bool" where
  "pastCloseRX AtStopSignal = True"
| "pastCloseRX AtStopWait = True"
| "pastCloseRX AtStopCmdWait = True"
| "pastCloseRX AtStopCloseTX = True"
| "pastCloseRX (Returned k) = (k = ExecError \<or> k = ContextError)"
| "pastCloseRX pc = False"

text \<open>
  What a reader of stderr or stdout contributes to the counter of the wait group: one
  from the \<open>Add\<close> until its \<open>Done\<close>.
\<close>

fun registered :: "bool \<Rightarrow> taskPc \<Rightarrow> nat" where
  "registered added NotStarted = (if added then 1 else 0)"
| "registered added AwaitRunning = 1"
| "registered added ReadingStream = 1"
| "registered added pc = 0"

fun streamPc :: "taskPc \<Rightarrow> bool" where
  "streamPc ReadingAddrs = False"
| "streamPc Draining = False"
| "streamPc pc = True"

fun ipcPc :: "taskPc \<Rightarrow> bool" where
  "ipcPc AwaitRunning = False"
| "ipcPc ReadingStream = False"
| "ipcPc pc = True"

definition joinInvariant :: "goroutines \<Rightarrow> bool" where
  "joinInvariant s =
    (streamPc (stderrTask s) \<and> streamPc (stdoutTask s) \<and> ipcPc (ipcTask s)
     \<and> (mainPc s = AtStderrPipe \<or> mainPc s = AtStderrAdd \<or> mainPc s = AtStderrGo
          \<longrightarrow> stderrTask s = NotStarted \<and> stdoutTask s = NotStarted)
     \<and> (mainPc s = AtStdoutPipe \<or> mainPc s = AtStdoutAdd \<or> mainPc s = AtStdoutGo
          \<longrightarrow> stderrTask s \<noteq> NotStarted \<and> stdoutTask s = NotStarted)
     \<and> (mainPc s = AtIPCGo
          \<longrightarrow> stderrTask s \<noteq> NotStarted \<and> stdoutTask s \<noteq> NotStarted)
     \<and> (allStarted (mainPc s)
          \<longrightarrow> stderrTask s \<noteq> NotStarted \<and> stdoutTask s \<noteq> NotStarted
              \<and> ipcTask s \<noteq> NotStarted)
     \<and> wgCount s = registered (mainPc s = AtStderrGo) (stderrTask s)
                     + registered (mainPc s = AtStdoutGo) (stdoutTask s)
     \<and> (pastWait (mainPc s) \<longrightarrow> stderrTask s = Finished \<and> stdoutTask s = Finished)
     \<and> (pastCloseTX (mainPc s) \<longrightarrow> pipeTXClosed s)
     \<and> (pastCloseRX (mainPc s) \<longrightarrow> pipeRXClosed s))"

definition contextExpires :: "choice list" where
  "contextExpires =
     [MainStep True, MainStep True, MainStep True,
      MainStep True, MainStep True, MainStep True,
      MainStep True,
      MainStep True,
      MainStep True,
      SelectStep stderrReader True, SelectStep stdoutReader True,
      ContextDone,
      MainStep True,
      MainStep True,
      ReadStep stderrReader (ReadFailed io_EOF), ReadStep stdoutReader (ReadFailed io_EOF),
      MainStep True, MainStep True, MainStep True]"

section \<open>Concrete inputs\<close>

text \<open>
  The configuration \<open>newConfig\<close> builds for the prefix \<open>p\<close>, with one extra
  argument, and the arguments a Unix build passes for the two pipes.
\<close>

definition cfg0 :: nodeConfig where
  "cfg0 = \<lparr>rpcUser = ''user'', rpcPass = ''pass'', listen = ''127.0.0.1:0'',
     rpcListen = ''127.0.0.1:0'', rpcConnect = [], dataDir = ''p/data'', logDir = ''p/logs'',
     profile = [], debugLevel = [], extra = [''--nobanning''], prefix = ''p'',
     pathToDCRD = ''dcrd'', endpoint = ''ws'', certFile = ''rpc.cert'', keyFile = ''rpc.key'',
     certificates = [], pipeTX = \<lparr>r = 3, w = 4\<rparr>, pipeRX = \<lparr>r = 5, w = 6\<rparr>\<rparr>"

definition unixArgs :: "nodeConfig \<Rightarrow> string list" where
  "unixArgs n = [''--pipetx=4'', ''--piperx=5'']"

text \<open>
  An environment in which every call of the teardown fails and the context runs out, and
  the same on Windows and with pipes that close without an error.
\<close>

definition envFail :: env where
  "envFail = \<lparr>GOOS = ''linux'', osNodeArgs = unixArgs, setOSNodeCmdOptions = (\<lambda>n c. c),
     stderrPipeResult = Inr 7, stdoutPipeResult = Inr 8, cmdStartResult = Inr 4242,
     ctxDone = Some (ErrorString ''context deadline exceeded''), selectCtxFirst = True,
     ipcInput = (\<lambda>fd. []),
     pipeCloseResult = (\<lambda>p. Some (ErrorString ''file already closed'')),
     signalResult = Some (ErrorString ''os: process already finished''),
     cmdWaitResult = Some (ErrorString ''exit status 1'')\<rparr>"

definition envWindows :: env where
  "envWindows = envFail\<lparr>GOOS := ''windows''\<rparr>"

definition envGraceful :: env where
  "envGraceful = envFail\<lparr>pipeCloseResult := (\<lambda>p. None)\<rparr>"

text \<open>A node that has just been created, and a node whose process runs.\<close>

definition node0 :: node where
  "node0 = fst (newNode cfg0 ''p'' 1)"

definition nodeRunning :: node where
  "nodeRunning = \<lparr>config = cfg0, nodeNum = 1,
     cmd = Some \<lparr>Path = ''dcrd'', Args = [''dcrd''], Process = Some 4242\<rparr>,
     stderr = Some 7, stdout = Some 8, p2pAddr = ''127.0.0.1:19108'',
     rpcAddr = ''127.0.0.1:19109'', dataDir = ''p''\<rparr>"

text \<open>Environments in which the binary cannot be executed and in which a pipe cannot be made.\<close>

definition envExec :: env where
  "envExec = envFail\<lparr>cmdStartResult := Inl (ErrorString ''fork/exec dcrd: no such file or directory'')\<rparr>"

definition envStderr :: env where
  "envStderr = envFail\<lparr>stderrPipeResult := Inl (ErrorString ''pipe: too many open files'')\<rparr>"

definition envStdout :: env where
  "envStdout = envFail\<lparr>stdoutPipeResult := Inl (ErrorString ''pipe: too many open files'')\<rparr>"

text \<open>
  A child that reports its two addresses and then a second P2P address, and an
  environment in which the start succeeds.
\<close>

definition store0 :: ipcStore where
  "store0 = (\<lambda>fd. []) (3 := [Inr (boundP2PListenAddrEvent ''127.0.0.1:19108''),
       Inr (boundRPCListenAddrEvent ''127.0.0.1:19109''),
       Inr (boundP2PListenAddrEvent ''[::1]:19108'')])"

definition envOK :: env where
  "envOK = envGraceful\<lparr>ctxDone := None, ipcInput := store0, signalResult := None,
     cmdWaitResult := None\<rparr>"



definition callsRestart :: "call list" where
  "callsRestart = [CallStart envOK, CallStop envGraceful, CallStart envOK]"



text \<open>
  Outcomes for \<open>genCertPair\<close>: the write of the key fails, and every call succeeds.
\<close>

definition certEnvKeyFails :: certEnv where
  "certEnvKeyFails = \<lparr>newTLSCertPairResult = Inr ([1, 2, 3], [4, 5, 6]), writeCertResult = None,
     writeKeyResult = Some (ErrorString ''open rpc.key: permission denied''),
     removeCertResult = None\<rparr>"

definition certEnvOK :: certEnv where
  "certEnvOK = certEnvKeyFails\<lparr>writeKeyResult := None\<rparr>"

section \<open>Properties of the argument list\<close>

text \<open>
  The list built by \<open>arguments\<close>, written as the concatenation of what each statement
  of the source appends.
\<close>

lemma arguments_segments:
  "arguments os n =
     (if rpcUser n \<noteq> [] then [''--rpcuser='' @ rpcUser n] else []) @
     (if rpcPass n \<noteq> [] then [''--rpcpass='' @ rpcPass n] else []) @
     (if listen n \<noteq> [] then [''--listen='' @ listen n] else []) @
     (if rpcListen n \<noteq> [] then [''--rpclisten='' @ rpcListen n] else []) @
     (if rpcConnect n \<noteq> [] then [''--rpcconnect='' @ rpcConnect n] else []) @
     [''--rpccert='' @ certFile n, ''--rpckey='' @ keyFile n, ''--txindex''] @
     (if nodeConfig.dataDir n \<noteq> [] then [''--datadir='' @ nodeConfig.dataDir n] else []) @
     (if logDir n \<noteq> [] then [''--logdir='' @ logDir n] else []) @
     (if profile n \<noteq> [] then [''--profile='' @ profile n] else []) @
     (if debugLevel n \<noteq> [] then [''--debuglevel='' @ debugLevel n] else []) @
     [''--allowunsyncedmining''] @ os n @ [''--boundaddrevents''] @ extra n"
  unfolding arguments_def appendOSNodeArgs_def Let_def
  by (simp only: if_distrib [of "\<lambda>xs. xs @ _"] append_Nil append_assoc append_Cons
        if_distrib [of "\<lambda>xs. _ @ xs"] append_Nil2 refl if_cancel cong: if_cong)

text \<open>
  C8. For every configuration and every OS-specific pipe encoding, the list returned by
  \<open>arguments\<close> is a list \<open>gen\<close> of generated arguments followed by the caller's
  extra arguments, which are therefore the last elements; \<open>gen\<close> always contains the
  certificate path, the key path, the transaction-index flag, the allow-unsynced flag and
  the bound-address-events flag, and it contains the credential and listen-address flags
  whenever the corresponding fields are not empty.
\<close>

theorem arguments_contents:
  "\<exists>gen. arguments os n = gen @ extra n
     \<and> (''--rpccert='' @ certFile n) \<in> set gen
     \<and> (''--rpckey='' @ keyFile n) \<in> set gen
     \<and> ''--txindex'' \<in> set gen
     \<and> ''--allowunsyncedmining'' \<in> set gen
     \<and> ''--boundaddrevents'' \<in> set gen
     \<and> (rpcUser n \<noteq> [] \<longrightarrow> (''--rpcuser='' @ rpcUser n) \<in> set gen)
     \<and> (rpcPass n \<noteq> [] \<longrightarrow> (''--rpcpass='' @ rpcPass n) \<in> set gen)
     \<and> (listen n \<noteq> [] \<longrightarrow> (''--listen='' @ listen n) \<in> set gen)
     \<and> (rpcListen n \<noteq> [] \<longrightarrow> (''--rpclisten='' @ rpcListen n) \<in> set gen)"
proof -
  define gen where "gen =
     (if rpcUser n \<noteq> [] then [''--rpcuser='' @ rpcUser n] else []) @
     (if rpcPass n \<noteq> [] then [''--rpcpass='' @ rpcPass n] else []) @
     (if listen n \<noteq> [] then [''--listen='' @ listen n] else []) @
     (if rpcListen n \<noteq> [] then [''--rpclisten='' @ rpcListen n] else []) @
     (if rpcConnect n \<noteq> [] then [''--rpcconnect='' @ rpcConnect n] else []) @
     [''--rpccert='' @ certFile n, ''--rpckey='' @ keyFile n, ''--txindex''] @
     (if nodeConfig.dataDir n \<noteq> [] then [''--datadir='' @ nodeConfig.dataDir n] else []) @
     (if logDir n \<noteq> [] then [''--logdir='' @ logDir n] else []) @
     (if profile n \<noteq> [] then [''--profile='' @ profile n] else []) @
     (if debugLevel n \<noteq> [] then [''--debuglevel='' @ debugLevel n] else []) @
     [''--allowunsyncedmining''] @ os n @ [''--boundaddrevents'']"
  have split: "arguments os n = gen @ extra n"
    unfolding gen_def arguments_segments by (simp only: append_assoc)
  have "(''--rpccert='' @ certFile n) \<in> set gen" unfolding gen_def by simp
  moreover have "(''--rpckey='' @ keyFile n) \<in> set gen" unfolding gen_def by simp
  moreover have "''--txindex'' \<in> set gen" unfolding gen_def by simp
  moreover have "''--allowunsyncedmining'' \<in> set gen" unfolding gen_def by simp
  moreover have "''--boundaddrevents'' \<in> set gen" unfolding gen_def by simp
  moreover have "rpcUser n \<noteq> [] \<longrightarrow> (''--rpcuser='' @ rpcUser n) \<in> set gen"
    unfolding gen_def by simp
  moreover have "rpcPass n \<noteq> [] \<longrightarrow> (''--rpcpass='' @ rpcPass n) \<in> set gen"
    unfolding gen_def by simp
  moreover have "listen n \<noteq> [] \<longrightarrow> (''--listen='' @ listen n) \<in> set gen"
    unfolding gen_def by simp
  moreover have "rpcListen n \<noteq> [] \<longrightarrow> (''--rpclisten='' @ rpcListen n) \<in> set gen"
    unfolding gen_def by simp
  ultimately show ?thesis using split by blast
qed

theorem arguments_contents_witness:
  "\<exists>gen. arguments unixArgs cfg0 = gen @ [''--nobanning'']
     \<and> ''--rpccert=rpc.cert'' \<in> set gen
     \<and> ''--rpckey=rpc.key'' \<in> set gen
     \<and> ''--txindex'' \<in> set gen
     \<and> ''--allowunsyncedmining'' \<in> set gen
     \<and> ''--boundaddrevents'' \<in> set gen
     \<and> ''--rpcuser=user'' \<in> set gen
     \<and> ''--rpcpass=pass'' \<in> set gen
     \<and> ''--listen=127.0.0.1:0'' \<in> set gen
     \<and> ''--rpclisten=127.0.0.1:0'' \<in> set gen"
  using arguments_contents [of unixArgs cfg0]
  by (simp add: cfg0_def)

section \<open>Properties of stop\<close>

lemma stop_not_started:
  "\<not> processStarted n \<Longrightarrow> stop env n = (None, n, [Tracef ''stop %p'', Tracef ''stop done''])"
  by (auto simp: stop_def processStarted_def split: option.splits)

lemma stop_error: "fst (stop env n) = None"
  by (simp add: stop_def Let_def)

lemma stop_started_cmd:
  "processStarted n \<Longrightarrow> fst (snd (stop env n)) = n\<lparr>cmd := None\<rparr>"
  by (auto simp: stop_def processStarted_def Let_def split: option.splits)

lemma stop_actions:
  "processStarted n \<Longrightarrow>
   actions (snd (snd (stop env n))) =
     PipeClose (pipeRX (config n)) #
     (case pipeCloseResult env (pipeRX (config n)) of
        None \<Rightarrow> []
      | Some e \<Rightarrow> [ProcessSignal (if GOOS env = ''windows'' then os_Kill else os_Interrupt)]) @
     [WgWait, CmdWait, PipeClose (pipeTX (config n))]"
  by (auto simp: stop_def processStarted_def Let_def actions_def split: option.splits)

lemma stop_logs:
  assumes "processStarted n"
  shows "(\<forall>e. pipeCloseResult env (pipeRX (config n)) = Some e \<longrightarrow>
            Logf (nodeNum n) (''Unable to close piperx ends: '' @ Error e) \<in> set (snd (snd (stop env n)))
            \<and> (\<forall>e'. signalResult env = Some e' \<longrightarrow>
                 Debugf (''stop Signal error: '' @ Error e') \<in> set (snd (snd (stop env n)))))"
    and "(\<forall>e. cmdWaitResult env = Some e \<longrightarrow>
            Debugf (''stop cmd.Wait error: '' @ Error e) \<in> set (snd (snd (stop env n))))"
    and "(\<forall>e. pipeCloseResult env (pipeTX (config n)) = Some e \<longrightarrow>
            Logf (nodeNum n) (''Unable to close pipe TX: '' @ Error e) \<in> set (snd (snd (stop env n))))"
  using assms
  by (auto simp: stop_def processStarted_def Let_def split: option.splits)


text \<open>
  C5. Every call of \<open>stop\<close> returns \<open>nil\<close>, in every state of the node and
  whatever the calls of the teardown return. On a node whose process was not started it
  returns at once and changes nothing. On a started node the process handle is \<open>nil\<close>
  afterwards, and the errors of closing the pipes, of sending the signal and of waiting
  for the process are in the log, never in the result. A second call of \<open>stop\<close>, right
  after the first, returns \<open>nil\<close> too, changes nothing and does nothing but log its
  two trace lines.
\<close>

theorem stop_returns_nil:
  "fst (stop env n) = None
   \<and> (\<not> processStarted n \<longrightarrow>
        stop env n = (None, n, [Tracef ''stop %p'', Tracef ''stop done'']))
   \<and> (processStarted n \<longrightarrow>
        cmd (fst (snd (stop env n))) = None
        \<and> (\<forall>e. pipeCloseResult env (pipeRX (config n)) = Some e \<longrightarrow>
              Logf (nodeNum n) (''Unable to close piperx ends: '' @ Error e)
                \<in> set (snd (snd (stop env n)))
              \<and> (\<forall>e'. signalResult env = Some e' \<longrightarrow>
                    Debugf (''stop Signal error: '' @ Error e') \<in> set (snd (snd (stop env n)))))
        \<and> (\<forall>e. cmdWaitResult env = Some e \<longrightarrow>
              Debugf (''stop cmd.Wait error: '' @ Error e) \<in> set (snd (snd (stop env n))))
        \<and> (\<forall>e. pipeCloseResult env (pipeTX (config n)) = Some e \<longrightarrow>
              Logf (nodeNum n) (''Unable to close pipe TX: '' @ Error e)
                \<in> set (snd (snd (stop env n)))))
   \<and> stop env' (fst (snd (stop env n))) =
        (None, fst (snd (stop env n)), [Tracef ''stop %p'', Tracef ''stop done''])"
proof -
  have second: "\<not> processStarted (fst (snd (stop env n)))"
  proof (cases "processStarted n")
    case True
    then show ?thesis by (simp add: stop_started_cmd) (simp add: processStarted_def)
  next
    case False
    then show ?thesis by (simp add: stop_not_started)
  qed
  have cleared: "processStarted n \<longrightarrow> cmd (fst (snd (stop env n))) = None"
    by (simp add: stop_started_cmd)
  show ?thesis
    using stop_error [of env n] stop_not_started [of n env] cleared
      stop_logs [of n env] stop_not_started [OF second, of env']
    by blast
qed

theorem stop_returns_nil_witness:
  "processStarted nodeRunning \<and> \<not> processStarted node0
   \<and> fst (stop envFail nodeRunning) = None
   \<and> stop envFail node0 = (None, node0, [Tracef ''stop %p'', Tracef ''stop done''])
   \<and> cmd (fst (snd (stop envFail nodeRunning))) = None
   \<and> Logf 1 ''Unable to close piperx ends: file already closed''
        \<in> set (snd (snd (stop envFail nodeRunning)))
   \<and> Debugf ''stop Signal error: os: process already finished''
        \<in> set (snd (snd (stop envFail nodeRunning)))
   \<and> Debugf ''stop cmd.Wait error: exit status 1''
        \<in> set (snd (snd (stop envFail nodeRunning)))
   \<and> Logf 1 ''Unable to close pipe TX: file already closed''
        \<in> set (snd (snd (stop envFail nodeRunning)))
   \<and> stop envFail (fst (snd (stop envFail nodeRunning))) =
        (None, fst (snd (stop envFail nodeRunning)), [Tracef ''stop %p'', Tracef ''stop done''])"
proof -
  have a: "processStarted nodeRunning"
    by (simp add: processStarted_def nodeRunning_def)
  have b: "\<not> processStarted node0"
    by (simp add: processStarted_def node0_def newNode_def)
  have c: "pipeCloseResult envFail (pipeRX (config nodeRunning)) = Some (ErrorString ''file already closed'')"
     "pipeCloseResult envFail (pipeTX (config nodeRunning)) = Some (ErrorString ''file already closed'')"
     "signalResult envFail = Some (ErrorString ''os: process already finished'')"
     "cmdWaitResult envFail = Some (ErrorString ''exit status 1'')"
     "nodeNum nodeRunning = 1"
    by (simp_all add: envFail_def nodeRunning_def)
  show ?thesis
    using a b c stop_returns_nil [of envFail nodeRunning envFail]
      stop_returns_nil [of envFail node0 envFail]
    by simp
qed

text \<open>
  C6. On a started node, the first action of \<open>stop\<close> is to close the pipe pair
  \<open>pipeRX\<close>, the pair the node transmits on. A signal is sent to the process if and
  only if that close returns an error, and then it is the kill signal on Windows and the
  interrupt signal on every other platform. The wait for the tasks, the wait for the
  process and the close of the pair \<open>pipeTX\<close> follow in both cases.
\<close>

theorem stop_graceful_then_signal:
  "processStarted n \<Longrightarrow>
   actions (snd (snd (stop env n))) =
     PipeClose (pipeRX (config n)) #
     (case pipeCloseResult env (pipeRX (config n)) of
        None \<Rightarrow> []
      | Some e \<Rightarrow> [ProcessSignal (if GOOS env = ''windows'' then os_Kill else os_Interrupt)]) @
     [WgWait, CmdWait, PipeClose (pipeTX (config n))]"
  by (auto simp: stop_def processStarted_def Let_def actions_def split: option.splits)

theorem stop_graceful_then_signal_witness:
  "processStarted nodeRunning
   \<and> actions (snd (snd (stop envGraceful nodeRunning))) =
       [PipeClose \<lparr>r = 5, w = 6\<rparr>, WgWait, CmdWait, PipeClose \<lparr>r = 3, w = 4\<rparr>]
   \<and> actions (snd (snd (stop envFail nodeRunning))) =
       [PipeClose \<lparr>r = 5, w = 6\<rparr>, ProcessSignal os_Interrupt, WgWait, CmdWait,
        PipeClose \<lparr>r = 3, w = 4\<rparr>]
   \<and> actions (snd (snd (stop envWindows nodeRunning))) =
       [PipeClose \<lparr>r = 5, w = 6\<rparr>, ProcessSignal os_Kill, WgWait, CmdWait,
        PipeClose \<lparr>r = 3, w = 4\<rparr>]"
proof -
  have a: "processStarted nodeRunning"
    by (simp add: processStarted_def nodeRunning_def)
  have c: "config nodeRunning = cfg0" by (simp add: nodeRunning_def)
  show ?thesis
    using a stop_graceful_then_signal [OF a, of envGraceful]
      stop_graceful_then_signal [OF a, of envFail]
      stop_graceful_then_signal [OF a, of envWindows]
    by (simp add: c cfg0_def envGraceful_def envWindows_def envFail_def)
qed

section \<open>Properties of start\<close>

lemma start_stderr_fail:
  "stderrPipeResult env = Inl e \<Longrightarrow>
   start env n = Some (Some e, n\<lparr>stderr := None\<rparr>, [StderrPipe])"
  by (simp add: start_def)

lemma start_stdout_fail:
  "stderrPipeResult env = Inr h \<Longrightarrow> stdoutPipeResult env = Inl e \<Longrightarrow>
   start env n = Some (Some e, n\<lparr>stderr := Some h, stdout := None\<rparr>,
     [StderrPipe, WgAdd 1, Go stderrReader, StdoutPipe])"
  by (simp add: start_def)

lemma start_exec_fail:
  "stderrPipeResult env = Inr h \<Longrightarrow> stdoutPipeResult env = Inr h' \<Longrightarrow>
   cmdStartResult env = Inl e \<Longrightarrow>
   start env n = Some (Some (WrapError (''unable to exec dcrd binary: '' @ Error e) errDcrdCmdExec),
     n\<lparr>stderr := Some h, stdout := Some h'\<rparr>,
     [StderrPipe, WgAdd 1, Go stderrReader, StdoutPipe, WgAdd 1, Go stdoutReader, Go ipcReader,
      CmdStart (command env (config n)), CloseRunning, WgWait,
      PipeClose (pipeTX (config n)), PipeClose (pipeRX (config n))])"
  by (simp add: start_def errDcrdCmdExec_def)

lemma start_ctx_done:
  assumes "stderrPipeResult env = Inr h" "stdoutPipeResult env = Inr h'"
    "cmdStartResult env = Inr pid" "ctxDone env = Some ce"
    "gotSubsysAddrs (readIPCMessages (config n) (nodeNum n) (ipcInput env)) \<longrightarrow> selectCtxFirst env"
  shows "start env n = Some (Some (ErrorString (''context done while waiting for addrs: '' @ Error ce)),
     fst (snd (stop env (launched env n h h' pid))),
     launchEvents env n @ snd (snd (stop env (launched env n h h' pid))))"
proof -
  obtain a b c where st: "stop env (launched env n h h' pid) = (a, b, c)"
    by (cases "stop env (launched env n h h' pid)")
  have "a = None" using stop_error [of env "launched env n h h' pid"] st by simp
  then show ?thesis
    using assms st
    by (auto simp: start_def launched_def launchEvents_def Let_def split: bool.splits)
qed




text \<open>
  C4. When the operating system fails to execute the binary (\<open>cmd.Start\<close> returns an
  error), \<open>start\<close> closes the channel \<open>running\<close>, waits on the wait group, on
  which the two tasks that drain the output are registered, then closes the pipe pair
  \<open>pipeTX\<close> and the pipe pair \<open>pipeRX\<close>, and returns an error that wraps
  \<open>errDcrdCmdExec\<close>, "unable to exec dcrd binary". The process handle of the node is
  not set.
\<close>

theorem start_exec_failure:
  assumes "stderrPipeResult env = Inr h" and "stdoutPipeResult env = Inr h'"
    and "cmdStartResult env = Inl e"
  shows "start env n =
      Some (Some (WrapError (''unable to exec dcrd binary: '' @ Error e) errDcrdCmdExec),
        n\<lparr>stderr := Some h, stdout := Some h'\<rparr>,
        [StderrPipe, WgAdd 1, Go stderrReader, StdoutPipe, WgAdd 1, Go stdoutReader,
         Go ipcReader, CmdStart (command env (config n)), CloseRunning, WgWait,
         PipeClose (pipeTX (config n)), PipeClose (pipeRX (config n))])
    \<and> Unwrap (WrapError (''unable to exec dcrd binary: '' @ Error e) errDcrdCmdExec)
        = Some errDcrdCmdExec
    \<and> errors_Is (Some (WrapError (''unable to exec dcrd binary: '' @ Error e) errDcrdCmdExec))
        errDcrdCmdExec"
  using start_exec_fail [OF assms, of n]
  by (simp add: errDcrdCmdExec_def)

theorem start_exec_failure_witness:
  "stderrPipeResult envExec = Inr 7 \<and> stdoutPipeResult envExec = Inr 8
   \<and> cmdStartResult envExec = Inl (ErrorString ''fork/exec dcrd: no such file or directory'')
   \<and> start envExec node0 =
      Some (Some (WrapError ''unable to exec dcrd binary: fork/exec dcrd: no such file or directory''
                    errDcrdCmdExec),
        node0\<lparr>stderr := Some 7, stdout := Some 8\<rparr>,
        [StderrPipe, WgAdd 1, Go stderrReader, StdoutPipe, WgAdd 1, Go stdoutReader,
         Go ipcReader, CmdStart (command envExec cfg0), CloseRunning, WgWait,
         PipeClose \<lparr>r = 3, w = 4\<rparr>, PipeClose \<lparr>r = 5, w = 6\<rparr>])"
proof -
  have a: "stderrPipeResult envExec = Inr 7" "stdoutPipeResult envExec = Inr 8"
    "cmdStartResult envExec = Inl (ErrorString ''fork/exec dcrd: no such file or directory'')"
    by (simp_all add: envExec_def envFail_def)
  have c: "config node0 = cfg0" by (simp add: node0_def newNode_def)
  show ?thesis
    using a start_exec_failure [OF a, of node0]
    by (simp add: c cfg0_def)
qed

text \<open>
  C3. When the process is launched and the \<open>select\<close> takes the case of the context
  (the context is done, and either the two addresses have not both been seen or the
  context wins the race), \<open>start\<close> runs the whole of \<open>stop\<close> on the launched
  node: it closes \<open>pipeRX\<close>, signals the process if that fails, waits for the tasks
  and for the process, closes \<open>pipeTX\<close> and clears the process handle. It then returns
  a non-nil error whose message is "context done while waiting for addrs: " followed by
  the message of the context's error. The two addresses of the node are left as they
  were.
\<close>

theorem start_context_done:
  assumes "stderrPipeResult env = Inr h" and "stdoutPipeResult env = Inr h'"
    and "cmdStartResult env = Inr pid"
    and "ctxDone env = Some ce"
    and "gotSubsysAddrs (readIPCMessages (config n) (nodeNum n) (ipcInput env))
           \<longrightarrow> selectCtxFirst env"
  shows "\<exists>n' tr. start env n =
        Some (Some (ErrorString (''context done while waiting for addrs: '' @ Error ce)), n', tr)
     \<and> actions tr =
         [StderrPipe, WgAdd 1, Go stderrReader, StdoutPipe, WgAdd 1, Go stdoutReader,
          Go ipcReader, CmdStart (command env (config n)), CloseRunning,
          PipeClose (pipeRX (config n))] @
         (case pipeCloseResult env (pipeRX (config n)) of
            None \<Rightarrow> []
          | Some e \<Rightarrow> [ProcessSignal (if GOOS env = ''windows'' then os_Kill else os_Interrupt)]) @
         [WgWait, CmdWait, PipeClose (pipeTX (config n))]
     \<and> cmd n' = None \<and> p2pAddr n' = p2pAddr n \<and> rpcAddr n' = rpcAddr n"
proof -
  let ?m = "launched env n h h' pid"
  have started: "processStarted ?m"
    by (simp add: processStarted_def launched_def)
  have cfg: "config ?m = config n"
    by (simp add: launched_def)
  have node: "fst (snd (stop env ?m)) = ?m\<lparr>cmd := None\<rparr>"
    using started by (rule stop_started_cmd)
  have acts: "actions (launchEvents env n @ snd (snd (stop env ?m))) =
      launchEvents env n @ actions (snd (snd (stop env ?m)))"
    by (simp add: actions_def launchEvents_def)
  show ?thesis
    using start_ctx_done [OF assms] stop_actions [OF started, of env] node acts cfg
    by (simp add: launchEvents_def launched_def)
qed

theorem start_context_done_witness:
  "stderrPipeResult envFail = Inr 7 \<and> stdoutPipeResult envFail = Inr 8
   \<and> cmdStartResult envFail = Inr 4242
   \<and> ctxDone envFail = Some (ErrorString ''context deadline exceeded'')
   \<and> \<not> gotSubsysAddrs (readIPCMessages (config node0) (nodeNum node0) (ipcInput envFail))
   \<and> (\<exists>n' tr. start envFail node0 =
        Some (Some (ErrorString ''context done while waiting for addrs: context deadline exceeded''),
              n', tr)
     \<and> actions tr =
         [StderrPipe, WgAdd 1, Go stderrReader, StdoutPipe, WgAdd 1, Go stdoutReader,
          Go ipcReader, CmdStart (command envFail cfg0), CloseRunning,
          PipeClose \<lparr>r = 5, w = 6\<rparr>, ProcessSignal os_Interrupt, WgWait, CmdWait,
          PipeClose \<lparr>r = 3, w = 4\<rparr>]
     \<and> cmd n' = None \<and> p2pAddr n' = [] \<and> rpcAddr n' = [])"
proof -
  have a: "stderrPipeResult envFail = Inr 7" "stdoutPipeResult envFail = Inr 8"
    "cmdStartResult envFail = Inr 4242"
    "ctxDone envFail = Some (ErrorString ''context deadline exceeded'')"
    by (simp_all add: envFail_def)
  have g: "\<not> gotSubsysAddrs (readIPCMessages (config node0) (nodeNum node0) (ipcInput envFail))"
    by (simp add: readIPCMessages_def readSubsysAddrs.simps nextIPCMessage_def envFail_def)
  then have b: "gotSubsysAddrs (readIPCMessages (config node0) (nodeNum node0) (ipcInput envFail))
           \<longrightarrow> selectCtxFirst envFail"
    by simp
  have c: "config node0 = cfg0" "p2pAddr node0 = []" "rpcAddr node0 = []"
    by (simp_all add: node0_def newNode_def)
  have d: "pipeRX cfg0 = \<lparr>r = 5, w = 6\<rparr>" "pipeTX cfg0 = \<lparr>r = 3, w = 4\<rparr>"
    "pipeCloseResult envFail \<lparr>r = 5, w = 6\<rparr> = Some (ErrorString ''file already closed'')"
    "GOOS envFail = ''linux''"
    by (simp_all add: cfg0_def envFail_def)
  show ?thesis
    using a g start_context_done [OF a b]
    by (simp add: c d)
qed

text \<open>
  C10. When the pipe for the standard error or for the standard output of the child
  cannot be made, \<open>start\<close> returns that error, has not started any process, and
  leaves the process handle of the node as it was; on a node whose handle is \<open>nil\<close>,
  a call of \<open>stop\<close> afterwards returns \<open>nil\<close> at once, with no action of the
  teardown.
\<close>

theorem start_pipe_failure:
  assumes "stderrPipeResult env = Inl e
    \<or> (\<exists>h. stderrPipeResult env = Inr h \<and> stdoutPipeResult env = Inl e)"
  shows "\<exists>n' tr. start env n = Some (Some e, n', tr)
     \<and> (\<forall>c. CmdStart c \<notin> set tr)
     \<and> cmd n' = cmd n
     \<and> (cmd n = None \<longrightarrow>
          stop env' n' = (None, n', [Tracef ''stop %p'', Tracef ''stop done'']))"
proof -
  from assms consider (err) "stderrPipeResult env = Inl e"
    | (out) h where "stderrPipeResult env = Inr h" "stdoutPipeResult env = Inl e"
    by blast
  then show ?thesis
  proof cases
    case err
    have "cmd n = None \<longrightarrow> \<not> processStarted (n\<lparr>stderr := None\<rparr>)"
      by (simp add: processStarted_def)
    then show ?thesis
      using start_stderr_fail [OF err, of n] stop_not_started [of "n\<lparr>stderr := None\<rparr>" env']
      by simp
  next
    case out
    have "cmd n = None \<longrightarrow> \<not> processStarted (n\<lparr>stderr := Some h, stdout := None\<rparr>)"
      by (simp add: processStarted_def)
    then show ?thesis
      using start_stdout_fail [OF out, of n]
        stop_not_started [of "n\<lparr>stderr := Some h, stdout := None\<rparr>" env']
      by simp
  qed
qed

theorem start_pipe_failure_witness:
  "stderrPipeResult envStderr = Inl (ErrorString ''pipe: too many open files'')
   \<and> stderrPipeResult envStdout = Inr 7
   \<and> stdoutPipeResult envStdout = Inl (ErrorString ''pipe: too many open files'')
   \<and> cmd node0 = None
   \<and> (\<exists>n' tr. start envStderr node0 = Some (Some (ErrorString ''pipe: too many open files''), n', tr)
        \<and> (\<forall>c. CmdStart c \<notin> set tr) \<and> cmd n' = None
        \<and> stop envFail n' = (None, n', [Tracef ''stop %p'', Tracef ''stop done'']))
   \<and> (\<exists>n' tr. start envStdout node0 = Some (Some (ErrorString ''pipe: too many open files''), n', tr)
        \<and> (\<forall>c. CmdStart c \<notin> set tr) \<and> cmd n' = None
        \<and> stop envFail n' = (None, n', [Tracef ''stop %p'', Tracef ''stop done'']))"
proof -
  have a: "stderrPipeResult envStderr = Inl (ErrorString ''pipe: too many open files'')"
    by (simp add: envStderr_def)
  have b: "stderrPipeResult envStdout = Inr 7"
    "stdoutPipeResult envStdout = Inl (ErrorString ''pipe: too many open files'')"
    by (simp_all add: envStdout_def envFail_def)
  have c: "cmd node0 = None" by (simp add: node0_def newNode_def)
  have a': "stderrPipeResult envStderr = Inl (ErrorString ''pipe: too many open files'')
    \<or> (\<exists>h. stderrPipeResult envStderr = Inr h
          \<and> stdoutPipeResult envStderr = Inl (ErrorString ''pipe: too many open files''))"
    using a by simp
  have b': "stderrPipeResult envStdout = Inl (ErrorString ''pipe: too many open files'')
    \<or> (\<exists>h. stderrPipeResult envStdout = Inr h
          \<and> stdoutPipeResult envStdout = Inl (ErrorString ''pipe: too many open files''))"
    using b by simp
  show ?thesis
    using a b c start_pipe_failure [OF a', of node0 envFail]
      start_pipe_failure [OF b', of node0 envFail]
    by simp
qed

section \<open>Properties of the task that reads the IPC messages\<close>











section \<open>The addresses of a node\<close>











text \<open>
  A second start after a stop finds the pipe pairs of the configuration closed: it reads
  no address, and with a context that is never done it does not return.
\<close>

lemma callsRestart_run:
  "lifetime (fst (newNode cfg0 ''p'' 1), False, []) callsRestart = None"
  by code_simp


section \<open>The pipe that is drained\<close>

text \<open>
  The second loop reads the handle \<open>pipeRX.r\<close> only: what is readable on any other
  handle stays as it was.
\<close>

lemma drainIPCMessages_other_handle:
  "fd \<noteq> r (pipeRX cfg) \<Longrightarrow> ipcPipes (drainIPCMessages cfg s) fd = ipcPipes s fd"
proof (induction cfg s rule: drainIPCMessages.induct)
  case (1 cfg s)
  show ?case
  proof (cases "ipcPipes s (r (pipeRX cfg))")
    case Nil
    then show ?thesis
      by (subst drainIPCMessages.simps) (simp add: nextIPCMessage_def)
  next
    case (Cons x xs)
    show ?thesis
    proof (cases x)
      case (Inl e)
      with Cons "1.prems" show ?thesis
        by (subst drainIPCMessages.simps) (simp add: nextIPCMessage_def)
    next
      case (Inr m)
      with Cons "1.prems" "1.IH" [of x "(ipcPipes s)(r (pipeRX cfg) := xs)" m] show ?thesis
        by (subst drainIPCMessages.simps) (simp add: nextIPCMessage_def)
    qed
  qed
qed

text \<open>
  C2. The claim is that, once both bound-address events have been seen, the task goes on
  reading messages from the pipe that carried them until that pipe is at its end. In the
  source the second loop reads \<open>n.config.pipeRX.r\<close>, while the events came from
  \<open>n.config.pipeTX.r\<close>. Here the child writes its two addresses and a second P2P
  address on \<open>pipeTX\<close> (handle 3) and nothing can be read on \<open>pipeRX\<close> (handle
  5): after the two events the task reads handle 5 once, gets the end of the stream and
  finishes, and the third message is still unread on handle 3.
\<close>

theorem ipc_drain_reads_pipeRX:
  "r (pipeTX cfg0) = 3 \<and> r (pipeRX cfg0) = 5
   \<and> store0 3 = [Inr (boundP2PListenAddrEvent ''127.0.0.1:19108''),
        Inr (boundRPCListenAddrEvent ''127.0.0.1:19109''), Inr (boundP2PListenAddrEvent ''[::1]:19108'')]
   \<and> store0 5 = []
   \<and> gotSubsysAddrs (readIPCMessages cfg0 1 store0)
   \<and> ipcTrace (readIPCMessages cfg0 1 store0) =
       [Logf 1 ''Reading IPC messages.'',
        NextIPCMessage 3, Logf 1 ''P2P listen addr: 127.0.0.1:19108'',
        NextIPCMessage 3, Logf 1 ''RPC listen addr: 127.0.0.1:19109'',
        CloseGotSubsysAddrs,
        NextIPCMessage 5, Logf 1 ''IPC messages drained'']
   \<and> ipcPipes (readIPCMessages cfg0 1 store0) 3 = [Inr (boundP2PListenAddrEvent ''[::1]:19108'')]"
  by code_simp

section \<open>Properties of genCertPair\<close>

lemma genCertPair_writes:
  "WriteFile name data perm \<in> set (snd (snd (genCertPair ce fs cf kf))) \<Longrightarrow>
   (name = cf \<and> perm = perm0644 \<and> (\<exists>k. newTLSCertPairResult ce = Inr (data, k)))
   \<or> (name = kf \<and> perm = perm0600 \<and> (\<exists>c. newTLSCertPairResult ce = Inr (c, data)))"
  by (auto simp: genCertPair_def os_WriteFile_def os_Remove_def Let_def
        split: sum.splits option.splits prod.splits)

lemma genCertPair_ok:
  assumes "newTLSCertPairResult ce = Inr (cert, key)" "writeCertResult ce = None"
    "writeKeyResult ce = None"
  shows "fst (genCertPair ce fs cf kf) = None"
    and "snd (snd (genCertPair ce fs cf kf)) =
      [NewTLSCertPair ''dcrdtest autogenerated cert'', WriteFile cf cert perm0644,
       WriteFile kf key perm0600]"
    and "fs cf = None \<Longrightarrow> fs kf = None \<Longrightarrow> cf \<noteq> kf \<Longrightarrow>
      fst (snd (genCertPair ce fs cf kf)) cf = Some (cert, perm0644)
      \<and> fst (snd (genCertPair ce fs cf kf)) kf = Some (key, perm0600)"
  using assms
  by (auto simp: genCertPair_def os_WriteFile_def Let_def)

lemma genCertPair_key_fails:
  assumes "newTLSCertPairResult ce = Inr (cert, key)" "writeCertResult ce = None"
    "writeKeyResult ce = Some e"
  shows "fst (genCertPair ce fs cf kf) = Some e"
    and "snd (snd (genCertPair ce fs cf kf)) =
      [NewTLSCertPair ''dcrdtest autogenerated cert'', WriteFile cf cert perm0644,
       WriteFile kf key perm0600, Remove cf]"
    and "removeCertResult ce = None \<Longrightarrow> fst (snd (genCertPair ce fs cf kf)) cf = None"
  using assms
  by (auto simp: genCertPair_def os_WriteFile_def os_Remove_def Let_def split: option.splits)

text \<open>
  C9. In every call of \<open>genCertPair\<close>, a file is written only as the certificate
  file, with the certificate and the permissions \<open>0644\<close> (readable by everyone), or
  as the key file, with the key and the permissions \<open>0600\<close> (nothing for group and
  others). When both writes succeed the result is \<open>nil\<close>, and two new, distinct files
  hold the certificate with \<open>0644\<close> and the key with \<open>0600\<close>. When the write of
  the key fails, \<open>genCertPair\<close> calls \<open>os.Remove\<close> on the certificate file and
  returns the error of the write; when the removal succeeds (its error is dropped by the
  source), no certificate file is left.
\<close>

theorem genCertPair_modes_and_cleanup:
  "(\<forall>name data perm. WriteFile name data perm \<in> set (snd (snd (genCertPair ce fs cf kf))) \<longrightarrow>
        (name = cf \<and> perm = perm0644 \<and> (\<exists>k. newTLSCertPairResult ce = Inr (data, k)))
        \<or> (name = kf \<and> perm = perm0600 \<and> (\<exists>c. newTLSCertPairResult ce = Inr (c, data))))
   \<and> perm0644 = 420 \<and> perm0644 mod 8 = 4 \<and> perm0600 = 384 \<and> perm0600 mod 64 = 0
   \<and> (\<forall>cert key. newTLSCertPairResult ce = Inr (cert, key) \<and> writeCertResult ce = None
          \<and> writeKeyResult ce = None \<longrightarrow>
        fst (genCertPair ce fs cf kf) = None
        \<and> snd (snd (genCertPair ce fs cf kf)) =
            [NewTLSCertPair ''dcrdtest autogenerated cert'', WriteFile cf cert perm0644,
             WriteFile kf key perm0600]
        \<and> (fs cf = None \<and> fs kf = None \<and> cf \<noteq> kf \<longrightarrow>
             fst (snd (genCertPair ce fs cf kf)) cf = Some (cert, perm0644)
             \<and> fst (snd (genCertPair ce fs cf kf)) kf = Some (key, perm0600)))
   \<and> (\<forall>cert key e. newTLSCertPairResult ce = Inr (cert, key) \<and> writeCertResult ce = None
          \<and> writeKeyResult ce = Some e \<longrightarrow>
        fst (genCertPair ce fs cf kf) = Some e
        \<and> snd (snd (genCertPair ce fs cf kf)) =
            [NewTLSCertPair ''dcrdtest autogenerated cert'', WriteFile cf cert perm0644,
             WriteFile kf key perm0600, Remove cf]
        \<and> (removeCertResult ce = None \<longrightarrow> fst (snd (genCertPair ce fs cf kf)) cf = None))"
proof -
  have m1: "perm0644 = 420" and m2: "perm0644 mod 8 = 4"
    and m3: "perm0600 = 384" and m4: "perm0600 mod 64 = 0"
    by (simp_all add: perm0644_def perm0600_def)
  have w: "\<forall>name data perm. WriteFile name data perm \<in> set (snd (snd (genCertPair ce fs cf kf))) \<longrightarrow>
        (name = cf \<and> perm = perm0644 \<and> (\<exists>k. newTLSCertPairResult ce = Inr (data, k)))
        \<or> (name = kf \<and> perm = perm0600 \<and> (\<exists>c. newTLSCertPairResult ce = Inr (c, data)))"
    using genCertPair_writes [of _ _ _ ce fs cf kf] by blast
  have ok: "\<forall>cert key. newTLSCertPairResult ce = Inr (cert, key) \<and> writeCertResult ce = None
          \<and> writeKeyResult ce = None \<longrightarrow>
        fst (genCertPair ce fs cf kf) = None
        \<and> snd (snd (genCertPair ce fs cf kf)) =
            [NewTLSCertPair ''dcrdtest autogenerated cert'', WriteFile cf cert perm0644,
             WriteFile kf key perm0600]
        \<and> (fs cf = None \<and> fs kf = None \<and> cf \<noteq> kf \<longrightarrow>
             fst (snd (genCertPair ce fs cf kf)) cf = Some (cert, perm0644)
             \<and> fst (snd (genCertPair ce fs cf kf)) kf = Some (key, perm0600))"
  proof (intro allI impI)
    fix cert key
    assume "newTLSCertPairResult ce = Inr (cert, key) \<and> writeCertResult ce = None
          \<and> writeKeyResult ce = None"
    then have h: "newTLSCertPairResult ce = Inr (cert, key)" "writeCertResult ce = None"
      "writeKeyResult ce = None" by simp_all
    show "fst (genCertPair ce fs cf kf) = None
        \<and> snd (snd (genCertPair ce fs cf kf)) =
            [NewTLSCertPair ''dcrdtest autogenerated cert'', WriteFile cf cert perm0644,
             WriteFile kf key perm0600]
        \<and> (fs cf = None \<and> fs kf = None \<and> cf \<noteq> kf \<longrightarrow>
             fst (snd (genCertPair ce fs cf kf)) cf = Some (cert, perm0644)
             \<and> fst (snd (genCertPair ce fs cf kf)) kf = Some (key, perm0600))"
      using genCertPair_ok [OF h, of fs cf kf] by simp
  qed
  have kfail: "\<forall>cert key e. newTLSCertPairResult ce = Inr (cert, key) \<and> writeCertResult ce = None
          \<and> writeKeyResult ce = Some e \<longrightarrow>
        fst (genCertPair ce fs cf kf) = Some e
        \<and> snd (snd (genCertPair ce fs cf kf)) =
            [NewTLSCertPair ''dcrdtest autogenerated cert'', WriteFile cf cert perm0644,
             WriteFile kf key perm0600, Remove cf]
        \<and> (removeCertResult ce = None \<longrightarrow> fst (snd (genCertPair ce fs cf kf)) cf = None)"
  proof (intro allI impI)
    fix cert key e
    assume "newTLSCertPairResult ce = Inr (cert, key) \<and> writeCertResult ce = None
          \<and> writeKeyResult ce = Some e"
    then have h: "newTLSCertPairResult ce = Inr (cert, key)" "writeCertResult ce = None"
      "writeKeyResult ce = Some e" by simp_all
    show "fst (genCertPair ce fs cf kf) = Some e
        \<and> snd (snd (genCertPair ce fs cf kf)) =
            [NewTLSCertPair ''dcrdtest autogenerated cert'', WriteFile cf cert perm0644,
             WriteFile kf key perm0600, Remove cf]
        \<and> (removeCertResult ce = None \<longrightarrow> fst (snd (genCertPair ce fs cf kf)) cf = None)"
      using genCertPair_key_fails [OF h, of fs cf kf] by simp
  qed
  show ?thesis
    by (insert w m1 m2 m3 m4 ok kfail) (intro conjI; assumption)
qed

theorem genCertPair_modes_and_cleanup_witness:
  "newTLSCertPairResult certEnvKeyFails = Inr ([1, 2, 3], [4, 5, 6])
   \<and> writeCertResult certEnvKeyFails = None
   \<and> writeKeyResult certEnvKeyFails = Some (ErrorString ''open rpc.key: permission denied'')
   \<and> removeCertResult certEnvKeyFails = None
   \<and> fst (genCertPair certEnvKeyFails Map.empty ''rpc.cert'' ''rpc.key'')
       = Some (ErrorString ''open rpc.key: permission denied'')
   \<and> snd (snd (genCertPair certEnvKeyFails Map.empty ''rpc.cert'' ''rpc.key'')) =
       [NewTLSCertPair ''dcrdtest autogenerated cert'', WriteFile ''rpc.cert'' [1, 2, 3] perm0644,
        WriteFile ''rpc.key'' [4, 5, 6] perm0600, Remove ''rpc.cert'']
   \<and> fst (snd (genCertPair certEnvKeyFails Map.empty ''rpc.cert'' ''rpc.key'')) ''rpc.cert'' = None
   \<and> writeKeyResult certEnvOK = None
   \<and> fst (genCertPair certEnvOK Map.empty ''rpc.cert'' ''rpc.key'') = None
   \<and> fst (snd (genCertPair certEnvOK Map.empty ''rpc.cert'' ''rpc.key'')) ''rpc.cert''
       = Some ([1, 2, 3], perm0644)
   \<and> fst (snd (genCertPair certEnvOK Map.empty ''rpc.cert'' ''rpc.key'')) ''rpc.key''
       = Some ([4, 5, 6], perm0600)
   \<and> WriteFile ''rpc.key'' [4, 5, 6] perm0600
       \<in> set (snd (snd (genCertPair certEnvOK Map.empty ''rpc.cert'' ''rpc.key'')))"
proof -
  have a: "newTLSCertPairResult certEnvKeyFails = Inr ([1, 2, 3], [4, 5, 6])"
    "writeCertResult certEnvKeyFails = None"
    "writeKeyResult certEnvKeyFails = Some (ErrorString ''open rpc.key: permission denied'')"
    "removeCertResult certEnvKeyFails = None"
    by (simp_all add: certEnvKeyFails_def)
  have b: "newTLSCertPairResult certEnvOK = Inr ([1, 2, 3], [4, 5, 6])"
    "writeCertResult certEnvOK = None" "writeKeyResult certEnvOK = None"
    by (simp_all add: certEnvOK_def certEnvKeyFails_def)
  have c: "''rpc.cert'' \<noteq> ''rpc.key''" by simp
  show ?thesis
    using a b c
      genCertPair_modes_and_cleanup [of certEnvKeyFails Map.empty "''rpc.cert''" "''rpc.key''"]
      genCertPair_modes_and_cleanup [of certEnvOK Map.empty "''rpc.cert''" "''rpc.key''"]
    by simp
qed

section \<open>The goroutines of start: who is waited for\<close>

lemma joinInvariant_beforeStart: "joinInvariant beforeStart"
  by (simp add: joinInvariant_def beforeStart_def)

lemma joinInvariant_data [simp]:
  "joinInvariant (s\<lparr>p2pAddrSeen := a\<rparr>) = joinInvariant s"
  "joinInvariant (s\<lparr>rpcAddrSeen := a\<rparr>) = joinInvariant s"
  "joinInvariant (s\<lparr>gotSubsysAddrsClosed := b\<rparr>) = joinInvariant s"
  "joinInvariant (s\<lparr>ctxIsDone := b\<rparr>) = joinInvariant s"
  by (simp_all add: joinInvariant_def)

lemma joinInvariant_stderr_reads:
  assumes "joinInvariant s" and "stderrTask s = AwaitRunning"
  shows "joinInvariant (s\<lparr>stderrTask := ReadingStream\<rparr>)"
  using assms by (cases "mainPc s") (simp_all add: joinInvariant_def)

lemma joinInvariant_stderr_done:
  assumes "joinInvariant s" and "stderrTask s = AwaitRunning \<or> stderrTask s = ReadingStream"
  shows "joinInvariant (s\<lparr>stderrTask := Finished, wgCount := wgCount s - 1\<rparr>)"
  using assms by (cases "mainPc s") (auto simp: joinInvariant_def)

lemma joinInvariant_stdout_reads:
  assumes "joinInvariant s" and "stdoutTask s = AwaitRunning"
  shows "joinInvariant (s\<lparr>stdoutTask := ReadingStream\<rparr>)"
  using assms by (cases "mainPc s") (simp_all add: joinInvariant_def)

lemma joinInvariant_stdout_done:
  assumes "joinInvariant s" and "stdoutTask s = AwaitRunning \<or> stdoutTask s = ReadingStream"
  shows "joinInvariant (s\<lparr>stdoutTask := Finished, wgCount := wgCount s - 1\<rparr>)"
  using assms by (cases "mainPc s") (auto simp: joinInvariant_def)

lemma joinInvariant_ipc:
  assumes "joinInvariant s" and "ipcTask s \<noteq> NotStarted"
    and "pc = Draining \<or> pc = Finished"
  shows "joinInvariant (s\<lparr>ipcTask := pc\<rparr>)"
  using assms by (cases "mainPc s") (auto simp: joinInvariant_def)

lemma joinInvariant_mainStep:
  assumes "joinInvariant s" and "mainStep ok s = Some s'"
  shows "joinInvariant s'"
proof (cases "mainPc s")
  case AtStderrPipe
  with assms show ?thesis
    by (auto simp: mainStep_def joinInvariant_def split: if_splits)
next
  case AtStderrAdd
  with assms show ?thesis
    by (auto simp: mainStep_def joinInvariant_def split: if_splits)
next
  case AtStderrGo
  with assms show ?thesis
    by (auto simp: mainStep_def joinInvariant_def split: if_splits)
next
  case AtStdoutPipe
  with assms show ?thesis
    by (auto simp: mainStep_def joinInvariant_def split: if_splits)
next
  case AtStdoutAdd
  with assms show ?thesis
    by (auto simp: mainStep_def joinInvariant_def split: if_splits)
next
  case AtStdoutGo
  with assms show ?thesis
    by (auto simp: mainStep_def joinInvariant_def split: if_splits)
next
  case AtIPCGo
  with assms show ?thesis
    by (auto simp: mainStep_def joinInvariant_def split: if_splits)
next
  case AtCmdStart
  with assms show ?thesis
    by (auto simp: mainStep_def joinInvariant_def split: if_splits)
next
  case AtCloseRunning
  with assms show ?thesis
    by (auto simp: mainStep_def joinInvariant_def split: if_splits)
next
  case AtExecWait
  with assms show ?thesis
    by (cases "stderrTask s"; cases "stdoutTask s")
       (auto simp: mainStep_def joinInvariant_def split: if_splits)
next
  case AtExecCloseTX
  with assms show ?thesis
    by (auto simp: mainStep_def joinInvariant_def split: if_splits)
next
  case AtExecCloseRX
  with assms show ?thesis
    by (auto simp: mainStep_def joinInvariant_def split: if_splits)
next
  case AtSelect
  with assms show ?thesis
    by (auto simp: mainStep_def joinInvariant_def split: if_splits)
next
  case AtStopCloseRX
  with assms show ?thesis
    by (auto simp: mainStep_def joinInvariant_def split: if_splits)
next
  case AtStopSignal
  with assms show ?thesis
    by (auto simp: mainStep_def joinInvariant_def split: if_splits)
next
  case AtStopWait
  with assms show ?thesis
    by (cases "stderrTask s"; cases "stdoutTask s")
       (auto simp: mainStep_def joinInvariant_def split: if_splits)
next
  case AtStopCmdWait
  with assms show ?thesis
    by (auto simp: mainStep_def joinInvariant_def split: if_splits)
next
  case AtStopCloseTX
  with assms show ?thesis
    by (auto simp: mainStep_def joinInvariant_def split: if_splits)
next
  case (Returned k)
  with assms show ?thesis by (simp add: mainStep_def)
qed




lemma joinInvariant_selectStep:
  assumes "joinInvariant s" and "selectStep t viaRunning s = Some s'"
  shows "joinInvariant s'"
proof (cases t)
  case stderrReader
  with assms(2) have "stderrTask s = AwaitRunning"
    and "s' = s\<lparr>stderrTask := ReadingStream\<rparr>
      \<or> s' = s\<lparr>stderrTask := Finished, wgCount := wgCount s - 1\<rparr>"
    by (auto simp: selectStep_def split: if_splits)
  with assms(1) show ?thesis
    using joinInvariant_stderr_reads [of s] joinInvariant_stderr_done [of s] by blast
next
  case stdoutReader
  with assms(2) have "stdoutTask s = AwaitRunning"
    and "s' = s\<lparr>stdoutTask := ReadingStream\<rparr>
      \<or> s' = s\<lparr>stdoutTask := Finished, wgCount := wgCount s - 1\<rparr>"
    by (auto simp: selectStep_def split: if_splits)
  with assms(1) show ?thesis
    using joinInvariant_stdout_reads [of s] joinInvariant_stdout_done [of s] by blast
next
  case ipcReader
  with assms show ?thesis by (simp add: selectStep_def)
qed


lemma joinInvariant_readStep:
  assumes "joinInvariant s" and "readStep t res s = Some s'"
  shows "joinInvariant s'"
proof (cases t)
  case stderrReader
  with assms(2) have "stderrTask s = ReadingStream"
    and "s' = s \<or> s' = s\<lparr>stderrTask := Finished, wgCount := wgCount s - 1\<rparr>"
    by (cases "stderrTask s"; cases res; simp add: readStep_def)+
  with assms(1) show ?thesis
    using joinInvariant_stderr_done [of s] by blast
next
  case stdoutReader
  with assms(2) have "stdoutTask s = ReadingStream"
    and "s' = s \<or> s' = s\<lparr>stdoutTask := Finished, wgCount := wgCount s - 1\<rparr>"
    by (cases "stdoutTask s"; cases res; simp add: readStep_def)+
  with assms(1) show ?thesis
    using joinInvariant_stdout_done [of s] by blast
next
  case ipcReader
  with assms(2) have at: "ipcTask s = ReadingAddrs \<or> ipcTask s = Draining"
    by (cases "ipcTask s"; cases res; simp add: readStep_def)
  then have started: "ipcTask s \<noteq> NotStarted" by auto
  from assms(2) ipcReader at
  have "\<exists>a b g pc. (pc = ipcTask s \<or> pc = Draining \<or> pc = Finished)
      \<and> s' = s\<lparr>p2pAddrSeen := a, rpcAddrSeen := b, gotSubsysAddrsClosed := g, ipcTask := pc\<rparr>"
  proof (cases res)
    case (GotLine l)
    with assms(2) ipcReader at show ?thesis by (auto simp: readStep_def)
  next
    case (ReadFailed e)
    with assms(2) ipcReader at have "s' = s\<lparr>ipcTask := Finished\<rparr>"
      by (auto simp: readStep_def)
    then have "s' = s\<lparr>p2pAddrSeen := p2pAddrSeen s, rpcAddrSeen := rpcAddrSeen s,
        gotSubsysAddrsClosed := gotSubsysAddrsClosed s, ipcTask := Finished\<rparr>" by simp
    then show ?thesis by blast
  next
    case (GotMessage msg)
    from at show ?thesis
    proof
      assume first: "ipcTask s = ReadingAddrs"
      with assms(2) ipcReader GotMessage
      have "s' = s\<lparr>p2pAddrSeen := p2pAddrSeen s', rpcAddrSeen := rpcAddrSeen s',
          gotSubsysAddrsClosed := gotSubsysAddrsClosed s', ipcTask := ipcTask s'\<rparr>"
        and "ipcTask s' = ipcTask s \<or> ipcTask s' = Draining"
        by (cases msg; auto simp: readStep_def readable_def Let_def split: if_splits)+
      then show ?thesis by blast
    next
      assume second: "ipcTask s = Draining"
      with assms(2) ipcReader GotMessage have "s' = s"
        by (auto simp: readStep_def readable_def split: if_splits)
      then have "s' = s\<lparr>p2pAddrSeen := p2pAddrSeen s, rpcAddrSeen := rpcAddrSeen s,
          gotSubsysAddrsClosed := gotSubsysAddrsClosed s, ipcTask := ipcTask s\<rparr>" by simp
      then show ?thesis by blast
    qed
  qed
  then obtain a b g pc where pc: "pc = ipcTask s \<or> pc = Draining \<or> pc = Finished"
    and s': "s' = s\<lparr>p2pAddrSeen := a, rpcAddrSeen := b, gotSubsysAddrsClosed := g, ipcTask := pc\<rparr>"
    by blast
  have "joinInvariant (s\<lparr>ipcTask := pc\<rparr>)"
  proof (cases "pc = ipcTask s")
    case True
    with assms(1) show ?thesis by simp
  next
    case False
    with pc have "pc = Draining \<or> pc = Finished" by simp
    from joinInvariant_ipc [OF assms(1) started this] show ?thesis .
  qed
  then show ?thesis
    unfolding s' by (simp add: joinInvariant_def)
qed

lemma joinInvariant_step:
  assumes "joinInvariant s" and "step c s = Some s'"
  shows "joinInvariant s'"
proof (cases c)
  case (MainStep ok)
  with assms show ?thesis by (simp add: joinInvariant_mainStep)
next
  case (SelectStep t viaRunning)
  with assms show ?thesis by (simp add: joinInvariant_selectStep)
next
  case (ReadStep t res)
  with assms show ?thesis by (simp add: joinInvariant_readStep)
next
  case ContextDone
  with assms show ?thesis by auto
qed

lemma joinInvariant_run:
  assumes "run cs s = Some s'" and "joinInvariant s"
  shows "joinInvariant s'"
  using assms
proof (induction cs arbitrary: s)
  case Nil
  then show ?case by simp
next
  case (Cons c cs)
  then obtain s1 where one: "step c s = Some s1" and rest: "run cs s1 = Some s'"
    by (cases "step c s") simp_all
  from Cons.IH [OF rest joinInvariant_step [OF Cons.prems(2) one]] show ?case .
qed


lemma execFails_run:
  "run execFails beforeStart =
     Some \<lparr>mainPc = Returned ExecError, stderrTask = Finished, stdoutTask = Finished,
       ipcTask = ReadingAddrs, wgCount = 0, runningClosed = True, ctxIsDone = False,
       gotSubsysAddrsClosed = False, startFailed = True, pipeTXClosed = True,
       pipeRXClosed = True, p2pAddrSeen = [], rpcAddrSeen = []\<rparr>"
  by code_simp

lemma contextExpires_run:
  "run contextExpires beforeStart =
     Some \<lparr>mainPc = Returned ContextError, stderrTask = Finished, stdoutTask = Finished,
       ipcTask = ReadingAddrs, wgCount = 0, runningClosed = True, ctxIsDone = True,
       gotSubsysAddrsClosed = False, startFailed = False, pipeTXClosed = True,
       pipeRXClosed = True, p2pAddrSeen = [], rpcAddrSeen = []\<rparr>"
  by code_simp

text \<open>
  The two readers of the output are registered with the wait group, and \<open>start\<close>
  returns the exec error or the context error only after a \<open>Wait\<close>: in every
  schedule both have ended by then. The reader of the IPC messages has been started.
\<close>

lemma stream_readers_joined:
  assumes "run cs beforeStart = Some s"
    and "mainPc s = Returned ExecError \<or> mainPc s = Returned ContextError"
  shows "stderrTask s = Finished \<and> stdoutTask s = Finished \<and> ipcTask s \<noteq> NotStarted"
proof -
  have inv: "joinInvariant s"
    using joinInvariant_run [OF assms(1) joinInvariant_beforeStart] .
  from assms(2) have "pastWait (mainPc s)" "allStarted (mainPc s)"
    by auto
  with inv show ?thesis
    by (simp add: joinInvariant_def)
qed

text \<open>
  C1. The claim is that, when \<open>start\<close> fails because the binary cannot be executed or
  because the context is done first, all three goroutines have terminated by the time
  \<open>start\<close> returns. The source waits for the two readers of the output, which it
  registers with \<open>n.wg.Add(1)\<close> (\<open>n.wg.Wait()\<close> at line 314, under the comment
  "wait until running goroutines are closed", and at line 371 in \<open>stop\<close>); the
  goroutine that reads the IPC messages (line 278) is started without \<open>n.wg.Add\<close>,
  and nothing waits for it. In the schedule \<open>execFails\<close> \<open>cmd.Start\<close> fails and
  \<open>start\<close> returns the exec error; in the schedule \<open>contextExpires\<close> the context
  expires and \<open>start\<close> returns the context error after \<open>stop\<close>. In both the two
  readers of the output have ended and the wait group is at zero, and the reader of the
  IPC messages is still in its first loop when \<open>start\<close> has returned.
\<close>

theorem start_failure_leaves_ipc_reader:
  "map_option mainPc (run execFails beforeStart) = Some (Returned ExecError)
   \<and> map_option stderrTask (run execFails beforeStart) = Some Finished
   \<and> map_option stdoutTask (run execFails beforeStart) = Some Finished
   \<and> map_option wgCount (run execFails beforeStart) = Some 0
   \<and> map_option ipcTask (run execFails beforeStart) = Some ReadingAddrs
   \<and> map_option mainPc (run contextExpires beforeStart) = Some (Returned ContextError)
   \<and> map_option stderrTask (run contextExpires beforeStart) = Some Finished
   \<and> map_option stdoutTask (run contextExpires beforeStart) = Some Finished
   \<and> map_option wgCount (run contextExpires beforeStart) = Some 0
   \<and> map_option ipcTask (run contextExpires beforeStart) = Some ReadingAddrs"
  by (simp add: execFails_run contextExpires_run)

end
